theory Spec2Isabelle
  imports Main
begin

section \<open>The type lattice\<close>

text \<open>
  The checker of \<^verbatim>\<open>torch/fx/experimental/graph_gradual_typechecker.py\<close> works on
  Python values imported from \<^verbatim>\<open>torch.fx.tensor_type\<close>: the singleton \<^verbatim>\<open>Dyn\<close>, the
  class \<^verbatim>\<open>TensorType\<close> with its sequence \<^verbatim>\<open>__args__\<close> of dimension values, and the
  relations \<^verbatim>\<open>is_consistent\<close> and \<^verbatim>\<open>is_more_precise\<close>. That module is not among the
  source files, so the values and the two relations follow the specification's data
  model (sections 3 and 4.1).

  A dimension value is the dynamic placeholder or an integer. Python's \<^verbatim>\<open>None\<close> is a
  third dimension value here because \<^verbatim>\<open>adaptiveavgpool2d_check\<close> can store it into a
  shape and \<^verbatim>\<open>calculate\<close> returns it for an input that is neither \<^verbatim>\<open>Dyn\<close> nor an
  integer.
\<close>

datatype dim = DynD | IntD int | NoneD

text \<open>
  Modelled from the spec: the class \<^verbatim>\<open>TensorType\<close> of \<^verbatim>\<open>torch.fx.tensor_type\<close>, an
  ordered sequence of dimension values. Its constructor is taken to keep the sequence
  it is given as \<^verbatim>\<open>__args__\<close>; the source gives it a tuple at most places and a list at
  two (the results of the transpose and of the reshape rule). Length, indexing, iteration
  and membership do not tell the two apart; the comparison of a tuple with
  \<^verbatim>\<open>__args__\<close> in \<^verbatim>\<open>broadcast_types\<close> does, since in Python a tuple never equals a
  list. So a tensor-shape type records which of the two its \<^verbatim>\<open>__args__\<close> is.
\<close>

datatype args_kind = TupleArgs | ListArgs

text \<open>
  The value of a node's \<^verbatim>\<open>type\<close> field: \<^verbatim>\<open>Dyn\<close>, a \<^verbatim>\<open>TensorType\<close>, the Python class
  \<^verbatim>\<open>int\<close> (the scalar case of the add rule) or \<^verbatim>\<open>None\<close> (the field is unset).
\<close>

datatype ty = Dyn | TensorType args_kind "dim list" | IntT | NoneT

fun is_TensorType :: "ty \<Rightarrow> bool" where
  "is_TensorType (TensorType k xs) = True"
| "is_TensorType t = False"

text \<open>
  Modelled from the spec: \<^verbatim>\<open>is_consistent\<close> of \<^verbatim>\<open>torch.fx.tensor_type\<close> on two
  dimension values. Section 4.1: a dimension pair is consistent when the two are equal
  integers or either side is dynamic; section 8 makes the relation reflexive, which
  settles the pair of two \<^verbatim>\<open>None\<close> values.
\<close>

fun dim_consistent :: "dim \<Rightarrow> dim \<Rightarrow> bool" where
  "dim_consistent DynD y = True"
| "dim_consistent x DynD = True"
| "dim_consistent x y = (x = y)"

text \<open>
  Modelled from the spec: \<^verbatim>\<open>is_consistent\<close> of \<^verbatim>\<open>torch.fx.tensor_type\<close> on two types.
  Section 4.1: the dynamic type is consistent with anything; two tensor-shape types are
  consistent iff they have the same rank and every pair of dimensions is consistent;
  mismatched ranks are not consistent. Section 8: the relation is reflexive and
  symmetric.
\<close>

fun is_consistent :: "ty \<Rightarrow> ty \<Rightarrow> bool" where
  "is_consistent Dyn t2 = True"
| "is_consistent t1 Dyn = True"
| "is_consistent (TensorType k xs) (TensorType k' ys) =
     (length xs = length ys \<and> list_all2 dim_consistent xs ys)"
| "is_consistent t1 t2 = (t1 = t2)"

text \<open>
  Modelled from the spec: \<^verbatim>\<open>is_more_precise\<close> of \<^verbatim>\<open>torch.fx.tensor_type\<close> on two
  dimension values. Section 4.1: \<open>t1[i]\<close> is more precise than \<open>t2[i]\<close> when \<open>t2[i]\<close> is
  dynamic and \<open>t1[i]\<close> is a known integer, or when both are equal integers; a known
  integer unequal to a known integer disqualifies. Sections 4.1 and 9: dynamic compared
  with dynamic is not more precise. The dynamic value is less precise than everything,
  so \<^verbatim>\<open>None\<close> (outside the spec's data model) counts as more precise than dynamic and
  otherwise only the two integer cases hold.
\<close>

fun dim_more_precise :: "dim \<Rightarrow> dim \<Rightarrow> bool" where
  "dim_more_precise DynD y = False"
| "dim_more_precise x DynD = True"
| "dim_more_precise (IntD a) (IntD b) = (a = b)"
| "dim_more_precise x y = False"

text \<open>
  Modelled from the spec: \<^verbatim>\<open>is_more_precise\<close> of \<^verbatim>\<open>torch.fx.tensor_type\<close> on two
  types. Sections 3, 4.1 and 8: the dynamic type is never more precise than any type,
  not even than itself, and is less precise than everything else; a tensor-shape type
  is more precise than another of the same rank iff every dimension is.
\<close>

fun is_more_precise :: "ty \<Rightarrow> ty \<Rightarrow> bool" where
  "is_more_precise Dyn t2 = False"
| "is_more_precise t1 Dyn = True"
| "is_more_precise (TensorType k xs) (TensorType k' ys) =
     (length xs = length ys \<and> list_all2 dim_more_precise xs ys)"
| "is_more_precise t1 t2 = False"

section \<open>Errors\<close>

text \<open>
  Every \<^verbatim>\<open>raise\<close> of the source, every failing \<^verbatim>\<open>assert\<close> and every exception of a
  Python primitive the source can trigger is a value of \<open>error\<close>. The source raises
  \<^verbatim>\<open>TypeError\<close> at many places with different messages; \<open>type_error\<close> names the place
  and carries the values the message is formatted from (a node is given by its id).
\<close>

datatype size2 = Single int | Pair int int

datatype output_size = OutInt int | OutPair "int option" "int option"

record pool_attrs =
  padding :: size2
  kernel_size :: size2
  stride :: size2
  dilation :: size2

record conv_attrs = pool_attrs +
  in_channels :: int
  out_channels :: int

datatype module_instance =
    BatchNorm2d int
  | Conv2d conv_attrs
  | ReLU
  | MaxPool2d pool_attrs
  | Linear int int
  | AdaptiveAvgPool2d output_size
  | OtherModule string

datatype type_error =
    RankMismatch ty nat nat
  | CannotMatch ty
  | CannotBroadcastTensors ty ty
  | InPlaceShape
  | CannotBroadcastTypes ty ty
  | CannotAdd nat ty nat ty nat
  | CannotTranspose int int ty nat
  | CannotReshape nat ty ty
  | CannotApply module_instance ty ty nat
  | InconsistentTypes ty ty
  | ShapeMismatch module_instance ty ty
  | WrongSize ty module_instance
  | InconsistentFeatures int dim module_instance
  | RankBelowTwo ty
  | ArgNodeInconsistent ty ty module_instance nat
  | WrongTypes ty ty module_instance
  | RanksThreeOrFour ty
  | EmptyReduce
  | UnsupportedOperand
  | MissingArgument

datatype callable =
    TorchAdd | OperatorAdd | TorchTranspose | TorchReshape
  | BatchNorm2dClass | Conv2dClass | ReLUClass | MaxPool2dClass
  | LinearClass | AdaptiveAvgPool2dClass
  | OtherCallable string

datatype target = Function callable | Name string

datatype runtime_error =
    AlreadyRegistered callable
  | NoRuleForTarget target
  | NoRuleForClass callable

datatype error =
    AssertionError
  | IndexError
  | ZeroDivisionError
  | AttributeError
  | NotImplementedError
  | TypeError type_error
  | RuntimeError runtime_error

section \<open>Shape arithmetic\<close>

fun expand_to_tensor_dim :: "ty \<Rightarrow> nat \<Rightarrow> error + ty" where
  "expand_to_tensor_dim Dyn n = Inr (TensorType TupleArgs (replicate n DynD))"
| "expand_to_tensor_dim (TensorType k xs) n =
     (if length xs \<noteq> n then Inl (TypeError (RankMismatch (TensorType k xs) (length xs) n))
      else Inr (TensorType k xs))"
| "expand_to_tensor_dim t n = Inl (TypeError (CannotMatch t))"

text \<open>
  The loop of \<^verbatim>\<open>broadcast_types\<close> over \<^verbatim>\<open>enumerate(zip(new_t1, new_t2))\<close>. The loop
  writes the two lists at index \<open>i\<close> only after the pair at \<open>i\<close> has been read, so the
  pairs the lazy \<^verbatim>\<open>zip\<close> yields are those of the lists before the loop.
\<close>

fun broadcast_loop :: "nat \<Rightarrow> (dim \<times> dim) list \<Rightarrow> dim list \<Rightarrow> dim list \<Rightarrow> dim list \<times> dim list" where
  "broadcast_loop i [] new_t1 new_t2 = (new_t1, new_t2)"
| "broadcast_loop i ((x, y) # ps) new_t1 new_t2 =
     (if x = IntD 1 then broadcast_loop (Suc i) ps (new_t1[i := y]) new_t2
      else if y = IntD 1 then broadcast_loop (Suc i) ps new_t1 (new_t2[i := x])
      else broadcast_loop (Suc i) ps new_t1 new_t2)"

text \<open>
  \<^verbatim>\<open>tuple(new_t) != t.__args__\<close>: a tuple differs from a list whatever the elements,
  and from a tuple when the elements differ.
\<close>

fun tuple_differs :: "dim list \<Rightarrow> args_kind \<Rightarrow> dim list \<Rightarrow> bool" where
  "tuple_differs new_t ListArgs a = True"
| "tuple_differs new_t TupleArgs a = (new_t \<noteq> a)"

definition broadcast_types :: "ty \<Rightarrow> ty \<Rightarrow> error + ty \<times> ty" where
  "broadcast_types t1 t2 =
     (if t1 = Dyn \<or> t2 = Dyn then Inr (t1, t2)
      else case (t1, t2) of
        (TensorType k1 a1, TensorType k2 a2) \<Rightarrow>
          (let s1 = length a1; s2 = length a2 in
           if (if s1 \<ge> s2 then s1 - s2 else s2 - s1) > 1 \<or> s1 = 0 \<or> s2 = 0
           then Inl (TypeError (CannotBroadcastTensors t1 t2))
           else
             let new_t2 = (if s1 > s2 then a1 ! 0 # a2 else a2);
                 new_t1 = (if s1 > s2 then a1 else if s2 > s1 then a2 ! 0 # a1 else a1);
                 (r1, r2) = broadcast_loop 0 (zip new_t1 new_t2) new_t1 new_t2
             in if tuple_differs r1 k1 a1 \<and> tuple_differs r2 k2 a2
                then Inl (TypeError InPlaceShape)
                else Inr (TensorType TupleArgs r1, TensorType TupleArgs r2))
      | _ \<Rightarrow> Inl (TypeError (CannotBroadcastTypes t1 t2)))"

text \<open>
  \<^verbatim>\<open>t.__args__[i]\<close> for a non-negative index: an attribute error on a value that is no
  \<^verbatim>\<open>TensorType\<close>, an index error out of range.
\<close>

fun nth_dim :: "ty \<Rightarrow> nat \<Rightarrow> error + dim" where
  "nth_dim (TensorType k xs) i = (if i < length xs then Inr (xs ! i) else Inl IndexError)"
| "nth_dim t i = Inl AttributeError"

text \<open>
  Python's \<^verbatim>\<open>reduce(lambda x, y: x * y, xs)\<close> without an initial value: a type error
  on the empty sequence, the single element itself on a sequence of one, and the
  product from the left otherwise. Only two integers can be multiplied.
\<close>

fun mul_dim :: "dim \<Rightarrow> dim \<Rightarrow> error + dim" where
  "mul_dim (IntD a) (IntD b) = Inr (IntD (a * b))"
| "mul_dim x y = Inl (TypeError UnsupportedOperand)"

fun reduce_from :: "dim \<Rightarrow> dim list \<Rightarrow> error + dim" where
  "reduce_from acc [] = Inr acc"
| "reduce_from acc (y # ys) =
     (case mul_dim acc y of Inl e \<Rightarrow> Inl e | Inr acc' \<Rightarrow> reduce_from acc' ys)"

fun reduce_mul :: "dim list \<Rightarrow> error + dim" where
  "reduce_mul [] = Inl (TypeError EmptyReduce)"
| "reduce_mul (x # xs) = reduce_from x xs"

fun reduce_mul_int :: "int list \<Rightarrow> error + int" where
  "reduce_mul_int [] = Inl (TypeError EmptyReduce)"
| "reduce_mul_int (x # xs) = Inr (foldl (\<lambda>a b. a * b) x xs)"

text \<open>Python's \<^verbatim>\<open>%\<close> on integers: floored, and an error on a zero divisor.\<close>

definition py_mod :: "int \<Rightarrow> int \<Rightarrow> error + int" where
  "py_mod a b = (if b = 0 then Inl ZeroDivisionError else Inr (a mod b))"

text \<open>
  The test \<^verbatim>\<open>p1 % p2 == 0 or p2 % p1 == 0\<close> of the reshape rule, where \<open>p1\<close> is the
  result of a \<^verbatim>\<open>reduce\<close> over dimension values and \<open>p2\<close> over integers. The second
  operand of \<^verbatim>\<open>or\<close> is evaluated only when the first is false.
\<close>

fun divides_either :: "dim \<Rightarrow> int \<Rightarrow> error + bool" where
  "divides_either (IntD p1) p2 =
     (case py_mod p1 p2 of Inl e \<Rightarrow> Inl e
      | Inr r \<Rightarrow> (if r = 0 then Inr True
                else (case py_mod p2 p1 of Inl e \<Rightarrow> Inl e | Inr r' \<Rightarrow> Inr (r' = 0))))"
| "divides_either p1 p2 = Inl (TypeError UnsupportedOperand)"

text \<open>
  A module attribute that is a scalar or a pair, normalised to a pair as \<^verbatim>\<open>calculate\<close>
  does, and the pair read at an index.
\<close>

fun as_pair :: "size2 \<Rightarrow> int \<times> int" where
  "as_pair (Single a) = (a, a)"
| "as_pair (Pair a b) = (a, b)"

fun pair_at :: "int \<times> int \<Rightarrow> nat \<Rightarrow> error + int" where
  "pair_at (a, b) i = (if i = 0 then Inr a else if i = 1 then Inr b else Inl IndexError)"

fun calculate :: "dim \<Rightarrow> 'a pool_attrs_scheme \<Rightarrow> nat \<Rightarrow> error + dim" where
  "calculate DynD module_instance index = Inr DynD"
| "calculate (IntD d_in) module_instance index =
     (case pair_at (as_pair (padding module_instance)) index of Inl e \<Rightarrow> Inl e | Inr p \<Rightarrow>
     (case pair_at (as_pair (dilation module_instance)) index of Inl e \<Rightarrow> Inl e | Inr dl \<Rightarrow>
     (case pair_at (as_pair (kernel_size module_instance)) index of Inl e \<Rightarrow> Inl e | Inr k \<Rightarrow>
        (let n = d_in + 2 * p - dl * (k - 1) - 1 in
         (case pair_at (as_pair (stride module_instance)) 0 of Inl e \<Rightarrow> Inl e | Inr s \<Rightarrow>
            if s = 0 then Inl ZeroDivisionError else Inr (IntD (n div s + 1)))))))"
| "calculate NoneD module_instance index = Inr NoneD"

fun get_greatest_upper_bound :: "ty \<Rightarrow> ty \<Rightarrow> error + ty" where
  "get_greatest_upper_bound Dyn type2 = Inr type2"
| "get_greatest_upper_bound type1 Dyn = Inr type1"
| "get_greatest_upper_bound (TensorType k xs) (TensorType k' ys) =
     (if length xs \<noteq> length ys then Inl AssertionError
      else Inr (TensorType TupleArgs
             (map (\<lambda>(t1, t2). if dim_more_precise t1 t2 then t1 else t2) (zip xs ys))))"
| "get_greatest_upper_bound type1 type2 = Inr NoneT"

section \<open>Graph nodes and the store of their type fields\<close>

text \<open>
  A node is owned by the graph; the checker reads its operator kind, target and
  arguments and reads and writes its \<^verbatim>\<open>type\<close> field. Nodes are referred to by id, and
  the \<^verbatim>\<open>type\<close> fields of all nodes form the store that the rules update, so that a
  write through \<^verbatim>\<open>n.args[0].type\<close> is seen by every later read of that node.
\<close>

datatype arg = ArgNode nat | ArgInt int | ArgList "int list"

record node =
  nid :: nat
  op :: string
  target :: target
  args :: "arg list"

type_synonym store = "nat \<Rightarrow> ty"

text \<open>\<^verbatim>\<open>n.args[i]\<close> under \<^verbatim>\<open>assert isinstance(n.args[i], Node)\<close>, and likewise for
  \<^verbatim>\<open>int\<close> and \<^verbatim>\<open>list\<close>.\<close>

definition arg_node :: "node \<Rightarrow> nat \<Rightarrow> error + nat" where
  "arg_node n i =
     (if i < length (args n)
      then (case args n ! i of ArgNode k \<Rightarrow> Inr k | _ \<Rightarrow> Inl AssertionError)
      else Inl IndexError)"

definition arg_int :: "node \<Rightarrow> nat \<Rightarrow> error + int" where
  "arg_int n i =
     (if i < length (args n)
      then (case args n ! i of ArgInt k \<Rightarrow> Inr k | _ \<Rightarrow> Inl AssertionError)
      else Inl IndexError)"

definition arg_list :: "node \<Rightarrow> nat \<Rightarrow> error + int list" where
  "arg_list n i =
     (if i < length (args n)
      then (case args n ! i of ArgList k \<Rightarrow> Inr k | _ \<Rightarrow> Inl AssertionError)
      else Inl IndexError)"

section \<open>Inference rules\<close>

text \<open>
  A rule returns the store as the rule leaves it together with the type it returns or
  the exception it raises: what a rule has written before it raises stays written.
\<close>

definition add_inference_rule :: "node \<Rightarrow> store \<Rightarrow> store \<times> (error + ty)" where
  "add_inference_rule n st =
     (case arg_node n 0 of Inl e \<Rightarrow> (st, Inl e) | Inr a0 \<Rightarrow>
     (case arg_node n 1 of Inl e \<Rightarrow> (st, Inl e) | Inr a1 \<Rightarrow>
       (let t1 = st a0; t2 = st a1 in
        if t1 = IntT \<and> is_TensorType t2 then (st(nid n := t2), Inr t2)
        else if t2 = IntT \<and> is_TensorType t1 then (st(nid n := t1), Inr t1)
        else (case broadcast_types t1 t2 of Inl e \<Rightarrow> (st, Inl e)
          | Inr (new_t1, new_t2) \<Rightarrow>
             (let st' = st(a0 := new_t1, a1 := new_t2) in
              if is_consistent new_t1 new_t2 then
                (if is_more_precise new_t1 new_t2
                 then (st'(nid n := new_t2), Inr new_t2)
                 else (st'(nid n := new_t1), Inr new_t1))
              else (st', Inl (TypeError (CannotAdd a0 (st' a0) a1 (st' a1) (nid n)))))))))"

definition transpose_inference_rule :: "node \<Rightarrow> store \<Rightarrow> store \<times> (error + ty)" where
  "transpose_inference_rule n st =
     (if target n = Function TorchTranspose then
       (case arg_node n 0 of Inl e \<Rightarrow> (st, Inl e) | Inr a \<Rightarrow>
       (let t = st a in
       (case arg_int n 1 of Inl e \<Rightarrow> (st, Inl e) | Inr dim1 \<Rightarrow>
       (case arg_int n 2 of Inl e \<Rightarrow> (st, Inl e) | Inr dim2 \<Rightarrow>
         (case t of
            Dyn \<Rightarrow> (st(nid n := Dyn), Inr Dyn)
          | TensorType k xs \<Rightarrow>
              if 0 \<le> dim1 \<and> dim1 < int (length xs) \<and> 0 \<le> dim2 \<and> dim2 < int (length xs)
              then (let final = TensorType ListArgs
                                  (xs[nat dim1 := xs ! nat dim2, nat dim2 := xs ! nat dim1])
                    in (st(nid n := final), Inr final))
              else (st, Inl (TypeError (CannotTranspose dim1 dim2 t (nid n))))
          | _ \<Rightarrow> (st, Inl (TypeError (CannotTranspose dim1 dim2 t (nid n)))))))))
      else (st, Inr NoneT))"

definition reshape_inference_rule :: "node \<Rightarrow> store \<Rightarrow> store \<times> (error + ty)" where
  "reshape_inference_rule n st =
     (case arg_node n 0 of Inl e \<Rightarrow> (st, Inl e) | Inr a \<Rightarrow>
     (let t1 = st a in
     (case arg_list n 1 of Inl e \<Rightarrow> (st, Inl e) | Inr t2 \<Rightarrow>
     (let t2_type = TensorType ListArgs (map (\<lambda>elem. if elem = - 1 then DynD else IntD elem) t2) in
      if t1 = Dyn then (st(nid n := t2_type), Inr t2_type)
      else if (case t1 of TensorType k xs \<Rightarrow> DynD \<in> set xs | _ \<Rightarrow> False) \<or> - 1 \<in> set t2 then
        (case t1 of
           TensorType k xs \<Rightarrow>
             (case reduce_mul (map (\<lambda>e. if e \<noteq> DynD then e else IntD 1) xs) of
                Inl e \<Rightarrow> (st, Inl e) | Inr p1 \<Rightarrow>
             (case reduce_mul_int t2 of Inl e \<Rightarrow> (st, Inl e) | Inr p2 \<Rightarrow>
             (case divides_either p1 p2 of Inl e \<Rightarrow> (st, Inl e) | Inr ok \<Rightarrow>
                if ok then (st(nid n := t2_type), Inr t2_type)
                else (st, Inl (TypeError (CannotReshape (nid n) t1 t2_type))))))
         | _ \<Rightarrow> (st, Inl AssertionError))
      else
        (case t1 of
           TensorType k xs \<Rightarrow>
             (case reduce_mul xs of Inl e \<Rightarrow> (st, Inl e) | Inr p1 \<Rightarrow>
             (case reduce_mul_int t2 of Inl e \<Rightarrow> (st, Inl e) | Inr p2 \<Rightarrow>
                if p1 = IntD p2 then (st(nid n := t2_type), Inr t2_type)
                else (st, Inl (TypeError (CannotReshape (nid n) t1 t2_type)))))
         | _ \<Rightarrow> (st, Inl (TypeError (CannotReshape (nid n) t1 t2_type))))))))"

definition bn2d_inference_rule :: "node \<Rightarrow> int \<Rightarrow> store \<Rightarrow> store \<times> (error + ty)" where
  "bn2d_inference_rule n num_features st =
     (case arg_node n 0 of Inl e \<Rightarrow> (st, Inl e) | Inr a \<Rightarrow>
     (case expand_to_tensor_dim (st a) 4 of Inl e \<Rightarrow> (st, Inl e) | Inr arg_type \<Rightarrow>
     (let st1 = st(a := arg_type) in
     (case expand_to_tensor_dim (st1 (nid n)) 4 of Inl e \<Rightarrow> (st1, Inl e) | Inr node_type \<Rightarrow>
     (let st2 = st1(nid n := node_type) in
     (case nth_dim arg_type 1 of Inl e \<Rightarrow> (st2, Inl e) | Inr c \<Rightarrow>
     (case nth_dim node_type 1 of Inl e \<Rightarrow> (st2, Inl e) | Inr c' \<Rightarrow>
        if dim_consistent c (IntD num_features) \<and> dim_consistent c' (IntD num_features)
           \<and> is_consistent arg_type node_type
        then (if is_more_precise arg_type node_type
              then (st2(nid n := arg_type), Inr arg_type)
              else (st2, Inr node_type))
        else (st2, Inl (TypeError
                (CannotApply (BatchNorm2d num_features) arg_type node_type (nid n)))))))))))"

text \<open>
  The candidate output type of \<^verbatim>\<open>conv2d_inference_rule\<close> (its lines from \<^verbatim>\<open>w_in\<close> to
  \<^verbatim>\<open>new_type\<close>): batch dimension of the input, the module's \<^verbatim>\<open>out_channels\<close>, and the
  two spatial sizes from \<^verbatim>\<open>calculate\<close>.
\<close>

definition conv2d_new_type :: "ty \<Rightarrow> conv_attrs \<Rightarrow> error + ty" where
  "conv2d_new_type arg_type module_instance =
     (case nth_dim arg_type 3 of Inl e \<Rightarrow> Inl e | Inr w_in \<Rightarrow>
     (case nth_dim arg_type 2 of Inl e \<Rightarrow> Inl e | Inr h_in \<Rightarrow>
     (case calculate h_in module_instance 0 of Inl e \<Rightarrow> Inl e | Inr h_out \<Rightarrow>
     (case calculate w_in module_instance 1 of Inl e \<Rightarrow> Inl e | Inr w_out \<Rightarrow>
     (case nth_dim arg_type 0 of Inl e \<Rightarrow> Inl e | Inr b \<Rightarrow>
        Inr (TensorType TupleArgs [b, IntD (out_channels module_instance), h_out, w_out]))))))"

definition conv2d_inference_rule :: "node \<Rightarrow> conv_attrs \<Rightarrow> store \<Rightarrow> store \<times> (error + ty)" where
  "conv2d_inference_rule n module_instance st =
     (case arg_node n 0 of Inl e \<Rightarrow> (st, Inl e) | Inr a \<Rightarrow>
     (case expand_to_tensor_dim (st a) 4 of Inl e \<Rightarrow> (st, Inl e) | Inr arg_type \<Rightarrow>
     (let st1 = st(a := arg_type) in
     (case expand_to_tensor_dim (st1 (nid n)) 4 of Inl e \<Rightarrow> (st1, Inl e) | Inr curr_node_type \<Rightarrow>
     (case nth_dim arg_type 1 of Inl e \<Rightarrow> (st1, Inl e) | Inr c \<Rightarrow>
        if dim_consistent c (IntD (in_channels module_instance)) then
          (case conv2d_new_type arg_type module_instance of Inl e \<Rightarrow> (st1, Inl e) | Inr new_type \<Rightarrow>
             if \<not> is_consistent new_type curr_node_type
             then (st1, Inl (TypeError (InconsistentTypes new_type curr_node_type)))
             else (case get_greatest_upper_bound new_type curr_node_type of
                     Inl e \<Rightarrow> (st1, Inl e)
                   | Inr gub \<Rightarrow> (st1(nid n := gub), Inr gub)))
        else (st1, Inl (TypeError
                (CannotApply (Conv2d module_instance) arg_type (st1 (nid n)) (nid n)))))))))"

definition relu_inference_rule :: "node \<Rightarrow> store \<Rightarrow> store \<times> (error + ty)" where
  "relu_inference_rule n st =
     (case arg_node n 0 of Inl e \<Rightarrow> (st, Inl e) | Inr a \<Rightarrow>
     (let arg_type = st a in
      if is_consistent arg_type (st (nid n)) then
        (if is_more_precise arg_type (st (nid n))
         then (st(nid n := arg_type), Inr arg_type)
         else (st, Inr (st (nid n))))
      else (st, Inl (TypeError (ShapeMismatch ReLU (st (nid n)) arg_type)))))"

fun maxpool2d_check :: "ty \<Rightarrow> pool_attrs \<Rightarrow> error + ty" where
  "maxpool2d_check (TensorType k new_type_list) module_instance =
     (if length new_type_list = 4 \<or> length new_type_list = 3 then
        (let w_in = new_type_list ! (length new_type_list - 1);
             h_in = new_type_list ! (length new_type_list - 2) in
        (case calculate h_in module_instance 0 of Inl e \<Rightarrow> Inl e | Inr h_out \<Rightarrow>
        (case calculate w_in module_instance 1 of Inl e \<Rightarrow> Inl e | Inr w_out \<Rightarrow>
           Inr (TensorType TupleArgs (new_type_list[length new_type_list - 1 := w_out,
                                                    length new_type_list - 2 := h_out])))))
      else Inl (TypeError (WrongSize (TensorType k new_type_list) (MaxPool2d module_instance))))"
| "maxpool2d_check typ module_instance = Inl AttributeError"

definition maxpool2d_inference_rule :: "node \<Rightarrow> pool_attrs \<Rightarrow> store \<Rightarrow> store \<times> (error + ty)" where
  "maxpool2d_inference_rule n module_instance st =
     (case arg_node n 0 of Inl e \<Rightarrow> (st, Inl e) | Inr a \<Rightarrow>
      if st a = Dyn \<and> st (nid n) = Dyn then (st, Inr Dyn)
      else if st a = Dyn \<and> is_TensorType (st (nid n)) then
        (case maxpool2d_check (st (nid n)) module_instance of Inl e \<Rightarrow> (st, Inl e)
         | Inr t \<Rightarrow> (st(nid n := t), Inr t))
      else if st (nid n) = Dyn \<and> is_TensorType (st a) then
        (case maxpool2d_check (st a) module_instance of Inl e \<Rightarrow> (st, Inl e)
         | Inr t \<Rightarrow> (st(nid n := t), Inr t))
      else if is_TensorType (st a) \<and> is_TensorType (st (nid n)) then
        (case maxpool2d_check (st a) module_instance of Inl e \<Rightarrow> (st, Inl e) | Inr new_arg \<Rightarrow>
        (case maxpool2d_check (st (nid n)) module_instance of Inl e \<Rightarrow> (st, Inl e)
         | Inr new_node_type \<Rightarrow>
           (let st1 = st(nid n := new_node_type) in
            if is_more_precise new_arg (st1 (nid n))
            then (st1(nid n := new_arg), Inr new_arg)
            else (st1, Inr (st1 (nid n))))))
      else (st, Inl (TypeError (CannotApply (MaxPool2d module_instance) (st a) (st (nid n)) (nid n)))))"

fun linear_check :: "ty \<Rightarrow> int \<Rightarrow> int \<Rightarrow> error + ty" where
  "linear_check (TensorType k xs) in_features out_features =
     (if length xs \<ge> 2 then
        (if dim_consistent (IntD in_features) (xs ! (length xs - 1))
         then Inr (TensorType TupleArgs (xs[length xs - 1 := IntD out_features]))
         else Inl (TypeError (InconsistentFeatures in_features (xs ! (length xs - 1))
                               (Linear in_features out_features))))
      else Inl (TypeError (RankBelowTwo (TensorType k xs))))"
| "linear_check tensor_type in_features out_features = Inl AttributeError"

definition linear_inference_rule :: "node \<Rightarrow> int \<Rightarrow> int \<Rightarrow> store \<Rightarrow> store \<times> (error + ty)" where
  "linear_inference_rule n in_features out_features st =
     (case arg_node n 0 of Inl e \<Rightarrow> (st, Inl e) | Inr a \<Rightarrow>
      if is_TensorType (st a) \<and> is_TensorType (st (nid n)) then
        (if is_consistent (st a) (st (nid n)) then
           (case linear_check (st a) in_features out_features of
              Inl e \<Rightarrow> (st, Inl e) | Inr new_res_type_from_arg \<Rightarrow>
           (case linear_check (st (nid n)) in_features out_features of
              Inl e \<Rightarrow> (st, Inl e) | Inr new_res_type_from_node \<Rightarrow>
             (let st1 = st(nid n := new_res_type_from_node) in
              if is_more_precise new_res_type_from_arg (st1 (nid n))
              then (st1(nid n := new_res_type_from_arg), Inr new_res_type_from_arg)
              else (st1, Inr (st1 (nid n))))))
         else (st, Inl (TypeError (ArgNodeInconsistent (st a) (st (nid n))
                                     (Linear in_features out_features) (nid n)))))
      else if is_TensorType (st a) \<and> st (nid n) = Dyn then
        (case linear_check (st a) in_features out_features of Inl e \<Rightarrow> (st, Inl e)
         | Inr new_type \<Rightarrow> (st(nid n := new_type), Inr new_type))
      else if is_TensorType (st (nid n)) \<and> st a = Dyn then
        (case linear_check (st (nid n)) in_features out_features of Inl e \<Rightarrow> (st, Inl e)
         | Inr new_type \<Rightarrow> (st(nid n := new_type), Inr new_type))
      else if st a = Dyn \<and> st (nid n) = Dyn then (st, Inr Dyn)
      else (st, Inl (TypeError (WrongTypes (st (nid n)) (st a) (Linear in_features out_features)))))"

text \<open>
  The normalisation of \<^verbatim>\<open>op_type.output_size\<close> in \<^verbatim>\<open>adaptiveavgpool2d_check\<close>, as the
  two dimension values later stored. For a pair, a missing first component takes the
  second one. The statement for a missing second component,
  \<^verbatim>\<open>output_size[1] == output_size[0]\<close>, is a comparison whose value is dropped, so the
  second component stays as it is.
\<close>

fun opt_dim :: "int option \<Rightarrow> dim" where
  "opt_dim None = NoneD"
| "opt_dim (Some k) = IntD k"

fun normalize_output_size :: "output_size \<Rightarrow> dim \<times> dim" where
  "normalize_output_size (OutInt k) = (IntD k, IntD k)"
| "normalize_output_size (OutPair a b) =
     (let o0 = (if a = None then b else a);
          o1 = b
      in (opt_dim o0, opt_dim o1))"

fun adaptiveavgpool2d_check :: "ty \<Rightarrow> output_size \<Rightarrow> error + ty" where
  "adaptiveavgpool2d_check (TensorType k new_type_list) osz =
     (let (o0, o1) = normalize_output_size osz in
      if length new_type_list = 4 \<or> length new_type_list = 3
      then Inr (TensorType TupleArgs (new_type_list[length new_type_list - 1 := o1,
                                                    length new_type_list - 2 := o0]))
      else Inl (TypeError (RanksThreeOrFour (TensorType k new_type_list))))"
| "adaptiveavgpool2d_check tensor_type osz = Inl AttributeError"

definition adaptiveavgpool2d_inference_rule ::
  "node \<Rightarrow> output_size \<Rightarrow> store \<Rightarrow> store \<times> (error + ty)" where
  "adaptiveavgpool2d_inference_rule n osz st =
     (case arg_node n 0 of Inl e \<Rightarrow> (st, Inl e) | Inr a \<Rightarrow>
      if is_TensorType (st a) \<and> is_TensorType (st (nid n)) then
        (if is_consistent (st a) (st (nid n)) then
           (case adaptiveavgpool2d_check (st a) osz of
              Inl e \<Rightarrow> (st, Inl e) | Inr new_res_type_from_arg \<Rightarrow>
           (case adaptiveavgpool2d_check (st (nid n)) osz of
              Inl e \<Rightarrow> (st, Inl e) | Inr new_res_type_from_node \<Rightarrow>
             (let st1 = st(nid n := new_res_type_from_node) in
              if is_more_precise new_res_type_from_arg (st1 (nid n))
              then (st1(nid n := new_res_type_from_arg), Inr new_res_type_from_arg)
              else (st1, Inr (st1 (nid n))))))
         else (st, Inl (TypeError (ArgNodeInconsistent (st a) (st (nid n))
                                     (AdaptiveAvgPool2d osz) (nid n)))))
      else if st a = Dyn \<and> is_TensorType (st (nid n)) then
        (case adaptiveavgpool2d_check (st (nid n)) osz of Inl e \<Rightarrow> (st, Inl e)
         | Inr new_type \<Rightarrow> (st(nid n := new_type), Inr new_type))
      else if is_TensorType (st a) \<and> st (nid n) = Dyn then
        (case adaptiveavgpool2d_check (st a) osz of Inl e \<Rightarrow> (st, Inl e)
         | Inr new_type \<Rightarrow> (st(nid n := new_type), Inr new_type))
      else if st (nid n) = Dyn \<and> st a = Dyn then (st, Inr Dyn)
      else (st, Inl (TypeError (WrongTypes (st (nid n)) (st a) (AdaptiveAvgPool2d osz)))))"

section \<open>The rule registry and the driver\<close>

text \<open>
  \<^verbatim>\<open>_INFERENCE_RULES\<close> maps a call target to a rule. A rule for a function takes the
  node; a rule for a module class takes the node and the module instance. The driver
  calls what it finds with one or with two arguments; Python raises a type error when
  the rule expects the other number.
\<close>

datatype rule =
    FunctionRule "node \<Rightarrow> store \<Rightarrow> store \<times> (error + ty)"
  | ModuleRule "node \<Rightarrow> module_instance \<Rightarrow> store \<Rightarrow> store \<times> (error + ty)"

type_synonym registry = "callable \<Rightarrow> rule option"

definition register_inference_rule :: "callable \<Rightarrow> rule \<Rightarrow> registry \<Rightarrow> error + registry" where
  "register_inference_rule call_target fn rules =
     (if rules call_target \<noteq> None then Inl (RuntimeError (AlreadyRegistered call_target))
      else Inr (rules(call_target \<mapsto> fn)))"

text \<open>
  The registry after the module is imported. A rule for a module class reads only the
  attributes of that class; the driver looks a rule up by the class of the instance, so
  the instance handed to a rule of this table always is of the rule's class.
\<close>

definition INFERENCE_RULES :: registry where
  "INFERENCE_RULES =
     [OperatorAdd \<mapsto> FunctionRule add_inference_rule,
      TorchAdd \<mapsto> FunctionRule add_inference_rule,
      TorchTranspose \<mapsto> FunctionRule transpose_inference_rule,
      TorchReshape \<mapsto> FunctionRule reshape_inference_rule,
      BatchNorm2dClass \<mapsto> ModuleRule (\<lambda>n m. case m of
          BatchNorm2d num_features \<Rightarrow> bn2d_inference_rule n num_features
        | _ \<Rightarrow> (\<lambda>st. (st, Inl AttributeError))),
      Conv2dClass \<mapsto> ModuleRule (\<lambda>n m. case m of
          Conv2d attrs \<Rightarrow> conv2d_inference_rule n attrs
        | _ \<Rightarrow> (\<lambda>st. (st, Inl AttributeError))),
      ReLUClass \<mapsto> ModuleRule (\<lambda>n m. relu_inference_rule n),
      MaxPool2dClass \<mapsto> ModuleRule (\<lambda>n m. case m of
          MaxPool2d attrs \<Rightarrow> maxpool2d_inference_rule n attrs
        | _ \<Rightarrow> (\<lambda>st. (st, Inl AttributeError))),
      LinearClass \<mapsto> ModuleRule (\<lambda>n m. case m of
          Linear in_features out_features \<Rightarrow> linear_inference_rule n in_features out_features
        | _ \<Rightarrow> (\<lambda>st. (st, Inl AttributeError))),
      AdaptiveAvgPool2dClass \<mapsto> ModuleRule (\<lambda>n m. case m of
          AdaptiveAvgPool2d osz \<Rightarrow> adaptiveavgpool2d_inference_rule n osz
        | _ \<Rightarrow> (\<lambda>st. (st, Inl AttributeError)))]"

fun class_of :: "module_instance \<Rightarrow> callable" where
  "class_of (BatchNorm2d f) = BatchNorm2dClass"
| "class_of (Conv2d c) = Conv2dClass"
| "class_of ReLU = ReLUClass"
| "class_of (MaxPool2d p) = MaxPool2dClass"
| "class_of (Linear i o') = LinearClass"
| "class_of (AdaptiveAvgPool2d s) = AdaptiveAvgPool2dClass"
| "class_of (OtherModule name) = OtherCallable name"

text \<open>
  The traced module: the ordered nodes of its graph and its submodules by attribute
  name. \<^verbatim>\<open>getattr(self.traced, str(n.target))\<close> raises an attribute error for a name
  that is not there.
\<close>

record traced =
  graph_nodes :: "node list"
  submodules :: "string \<Rightarrow> module_instance option"

fun lookup_rule :: "registry \<Rightarrow> target \<Rightarrow> rule option" where
  "lookup_rule rules (Function c) = rules c"
| "lookup_rule rules (Name s) = None"

fun get_submodule :: "traced \<Rightarrow> target \<Rightarrow> error + module_instance" where
  "get_submodule tr (Name s) =
     (case submodules tr s of None \<Rightarrow> Inl AttributeError | Some m \<Rightarrow> Inr m)"
| "get_submodule tr (Function c) = Inl AttributeError"

fun call_with_node :: "rule \<Rightarrow> node \<Rightarrow> store \<Rightarrow> store \<times> (error + ty)" where
  "call_with_node (FunctionRule f) n st = f n st"
| "call_with_node (ModuleRule f) n st = (st, Inl (TypeError MissingArgument))"

fun call_with_module :: "rule \<Rightarrow> node \<Rightarrow> module_instance \<Rightarrow> store \<Rightarrow> store \<times> (error + ty)" where
  "call_with_module (ModuleRule f) n m st = f n m st"
| "call_with_module (FunctionRule f) n m st = (st, Inl (TypeError MissingArgument))"

definition type_check_node :: "registry \<Rightarrow> traced \<Rightarrow> node \<Rightarrow> store \<Rightarrow> store \<times> (error + ty)" where
  "type_check_node rules tr n st0 =
     (let st = (if st0 (nid n) = NoneT then st0(nid n := Dyn) else st0) in
      if op n = ''placeholder'' then (st, Inr (st (nid n)))
      else if op n = ''call_function'' then
        (case lookup_rule rules (target n) of
           Some r \<Rightarrow> call_with_node r n st
         | None \<Rightarrow> (st, Inl (RuntimeError (NoRuleForTarget (target n)))))
      else if op n = ''call_module'' then
        (case get_submodule tr (target n) of Inl e \<Rightarrow> (st, Inl e) | Inr module_instance \<Rightarrow>
        (case rules (class_of module_instance) of
           Some r \<Rightarrow> call_with_module r n module_instance st
         | None \<Rightarrow> (st, Inl (RuntimeError (NoRuleForClass (class_of module_instance))))))
      else if op n = ''output'' then
        (case arg_node n 0 of Inl e \<Rightarrow> (st, Inl e)
         | Inr a \<Rightarrow> (st(nid n := st a), Inr (st a)))
      else (st, Inl NotImplementedError))"

fun type_check_nodes :: "registry \<Rightarrow> traced \<Rightarrow> node list \<Rightarrow> store \<Rightarrow> store \<times> (error + bool)" where
  "type_check_nodes rules tr [] st = (st, Inr True)"
| "type_check_nodes rules tr (n # ns) st =
     (case type_check_node rules tr n st of
        (st', Inl e) \<Rightarrow> (st', Inl e)
      | (st', Inr t) \<Rightarrow> type_check_nodes rules tr ns st')"

definition type_check :: "registry \<Rightarrow> traced \<Rightarrow> store \<Rightarrow> store \<times> (error + bool)" where
  "type_check rules tr st = type_check_nodes rules tr (graph_nodes tr) st"

section \<open>Notions of the specification used to state the properties\<close>

text \<open>
  The component of a scalar-or-pair module attribute at a spatial axis, the scalar
  standing for both axes.
\<close>

definition axis :: "size2 \<Rightarrow> nat \<Rightarrow> int" where
  "axis s i = (if i = 0 then fst (as_pair s) else snd (as_pair s))"

text \<open>
  "At least as precise": more precise in the sense of \<open>is_more_precise\<close>, or equal,
  where two tensor-shape types are compared dimension by dimension and equality is
  allowed in every dimension.
\<close>

fun at_least_as_precise :: "ty \<Rightarrow> ty \<Rightarrow> bool" where
  "at_least_as_precise (TensorType k xs) (TensorType k' ys) =
     list_all2 (\<lambda>x y. x = y \<or> dim_more_precise x y) xs ys"
| "at_least_as_precise t1 t2 = (t1 = t2 \<or> is_more_precise t1 t2)"

text \<open>
  A node the driver has no rule for: a call of a function whose target is not in the
  registry, or a call of a submodule whose class is not in the registry. The error the
  driver raises at such a node, and the store after the driver has set an unset type
  field of the node to \<^verbatim>\<open>Dyn\<close>.
\<close>

definition unregistered :: "registry \<Rightarrow> traced \<Rightarrow> node \<Rightarrow> bool" where
  "unregistered rules tr n =
     ((op n = ''call_function'' \<and> lookup_rule rules (target n) = None)
      \<or> (op n = ''call_module'' \<and>
          (case get_submodule tr (target n) of
             Inl e \<Rightarrow> False
           | Inr m \<Rightarrow> rules (class_of m) = None)))"

definition unregistered_error :: "traced \<Rightarrow> node \<Rightarrow> error" where
  "unregistered_error tr n =
     (if op n = ''call_function'' then RuntimeError (NoRuleForTarget (target n))
      else (case get_submodule tr (target n) of
              Inl e \<Rightarrow> e
            | Inr m \<Rightarrow> RuntimeError (NoRuleForClass (class_of m))))"

definition init_type :: "node \<Rightarrow> store \<Rightarrow> store" where
  "init_type n st = (if st (nid n) = NoneT then st(nid n := Dyn) else st)"

text \<open>
  For the reshape rule: the product of the known dimensions of a source type, the
  product of the entries of a target list other than the wildcard \<open>-1\<close>, and the type
  the target list stands for (a wildcard becomes a dynamic dimension).
\<close>

definition known_product :: "dim list \<Rightarrow> int" where
  "known_product xs = prod_list (map (\<lambda>d. case d of IntD k \<Rightarrow> k | _ \<Rightarrow> 1) xs)"

definition target_known_product :: "int list \<Rightarrow> int" where
  "target_known_product t2 = prod_list (filter (\<lambda>e. e \<noteq> - 1) t2)"

definition target_type :: "int list \<Rightarrow> ty" where
  "target_type t2 = TensorType ListArgs (map (\<lambda>elem. if elem = - 1 then DynD else IntD elem) t2)"

text \<open>
  The pooling formula on one spatial size: an integer size \<open>d\<close> at axis \<open>i\<close> becomes
  \<open>floor((d + 2 * p[i] - dilation[i] * (k[i] - 1) - 1) / s[0]) + 1\<close>, and a size that is
  not an integer (dynamic, or \<^verbatim>\<open>None\<close>) stays as it is.
\<close>

fun is_int_dim :: "dim \<Rightarrow> bool" where
  "is_int_dim (IntD d) = True"
| "is_int_dim d = False"

fun pool_dim :: "dim \<Rightarrow> 'a pool_attrs_scheme \<Rightarrow> nat \<Rightarrow> dim" where
  "pool_dim (IntD d) m i =
     IntD ((d + 2 * axis (padding m) i - axis (dilation m) i * (axis (kernel_size m) i - 1) - 1)
            div axis (stride m) 0 + 1)"
| "pool_dim d m i = d"

section \<open>Concrete graphs and modules for the examples\<close>

text \<open>
  Node 0 is a placeholder. Node 1 is, from example to example, a call of a submodule
  or of a function on node 0; node 2 is an addition (of nodes 0 and 1, or of node 1 and
  itself) or the output.
\<close>

definition node0 :: node where
  "node0 = \<lparr>nid = 0, op = ''placeholder'', target = Name ''x'', args = []\<rparr>"

definition conv_node :: node where
  "conv_node = \<lparr>nid = 1, op = ''call_module'', target = Name ''conv'', args = [ArgNode 0]\<rparr>"

definition pool_node :: node where
  "pool_node = \<lparr>nid = 1, op = ''call_module'', target = Name ''pool'', args = [ArgNode 0]\<rparr>"

definition relu_node :: node where
  "relu_node = \<lparr>nid = 1, op = ''call_module'', target = Name ''relu'', args = [ArgNode 0]\<rparr>"

definition fn_node :: node where
  "fn_node = \<lparr>nid = 1, op = ''call_function'', target = Function (OtherCallable ''torch.flatten''),
              args = [ArgNode 0]\<rparr>"

definition mod_node :: node where
  "mod_node = \<lparr>nid = 1, op = ''call_module'', target = Name ''drop'', args = [ArgNode 0]\<rparr>"

definition reshape_node :: "int list \<Rightarrow> node" where
  "reshape_node shape = \<lparr>nid = 1, op = ''call_function'', target = Function TorchReshape,
                          args = [ArgNode 0, ArgList shape]\<rparr>"

definition add_node :: node where
  "add_node = \<lparr>nid = 2, op = ''call_function'', target = Function TorchAdd,
               args = [ArgNode 0, ArgNode 1]\<rparr>"

definition add_self_node :: node where
  "add_self_node = \<lparr>nid = 2, op = ''call_function'', target = Function TorchAdd,
                    args = [ArgNode 1, ArgNode 1]\<rparr>"

definition out_node :: node where
  "out_node = \<lparr>nid = 2, op = ''output'', target = Name ''output'', args = [ArgNode 1]\<rparr>"

definition traced_fn :: traced where
  "traced_fn = \<lparr>graph_nodes = [node0, fn_node, out_node], submodules = (\<lambda>s. None)\<rparr>"

definition traced_mod :: traced where
  "traced_mod = \<lparr>graph_nodes = [node0, mod_node, out_node],
                 submodules = (\<lambda>s. if s = ''drop'' then Some (OtherModule ''Dropout'') else None)\<rparr>"

definition conv_3_16 :: conv_attrs where
  "conv_3_16 = \<lparr>padding = Pair 0 0, kernel_size = Pair 3 3, stride = Pair 1 1,
                 dilation = Pair 1 1, in_channels = 3, out_channels = 16\<rparr>"

definition pool_2x2 :: pool_attrs where
  "pool_2x2 = \<lparr>padding = Single 0, kernel_size = Single 2, stride = Single 2,
                dilation = Single 1\<rparr>"

definition pool_uneven :: pool_attrs where
  "pool_uneven = \<lparr>padding = Pair 0 1, kernel_size = Pair 3 3, stride = Pair 2 3,
                   dilation = Single 1\<rparr>"

definition pool_no_stride :: pool_attrs where
  "pool_no_stride = \<lparr>padding = Single 0, kernel_size = Single 2, stride = Single 0,
                      dilation = Single 1\<rparr>"

text \<open>
  The store of a graph none of whose nodes has a type yet, and the store in which
  node 0 and node 1 have the given types.
\<close>

definition unset :: store where
  "unset = (\<lambda>k. NoneT)"

definition store_of :: "ty \<Rightarrow> ty \<Rightarrow> store" where
  "store_of t0 t1 = unset(0 := t0, 1 := t1)"

section \<open>Auxiliary facts\<close>

lemma pair_at_axis: "i < 2 \<Longrightarrow> pair_at (as_pair s) i = Inr (axis s i)"
  by (cases s; cases "i = 0") (auto simp: axis_def)

lemma calculate_IntD:
  "i < 2 \<Longrightarrow> axis (stride m) 0 \<noteq> 0 \<Longrightarrow>
   calculate (IntD d) m i =
     Inr (IntD ((d + 2 * axis (padding m) i - axis (dilation m) i * (axis (kernel_size m) i - 1) - 1)
                 div axis (stride m) 0 + 1))"
proof -
  assume i: "i < 2" and s: "axis (stride m) 0 \<noteq> 0"
  have z: "(0::nat) < 2" by simp
  show ?thesis
    using s by (simp add: pair_at_axis [OF i] pair_at_axis [OF z] Let_def)
qed

lemma type_check_node_unregistered:
  "unregistered rules tr n \<Longrightarrow>
   type_check_node rules tr n st = (init_type n st, Inl (unregistered_error tr n))"
  by (auto simp: unregistered_def unregistered_error_def type_check_node_def init_type_def Let_def
           split: sum.splits)

lemma type_check_nodes_append:
  "type_check_nodes rules tr (pre @ rest) st =
     (case type_check_nodes rules tr pre st of
        (st', Inl e) \<Rightarrow> (st', Inl e)
      | (st', Inr b) \<Rightarrow> type_check_nodes rules tr rest st')"
  by (induction pre arbitrary: st) (auto split: prod.splits sum.splits)

lemma type_check_nodes_never_succeeds:
  "unregistered rules tr n \<Longrightarrow> n \<in> set ns \<Longrightarrow> snd (type_check_nodes rules tr ns st) \<noteq> Inr b"
proof (induction ns arbitrary: st)
  case Nil
  then show ?case by simp
next
  case (Cons x ns)
  show ?case
  proof (cases "x = n")
    case True
    then show ?thesis
      using Cons.prems(1) by (simp add: type_check_node_unregistered)
  next
    case False
    then have "n \<in> set ns" using Cons.prems(2) by simp
    then show ?thesis
      using Cons.IH [OF Cons.prems(1)] by (auto split: prod.splits sum.splits)
  qed
qed

lemma at_least_refl: "at_least_as_precise t t"
  by (cases t) (simp_all add: list_all2_same)

lemma more_precise_at_least: "is_more_precise t1 t2 \<Longrightarrow> at_least_as_precise t1 t2"
  by (cases t1; cases t2) (auto elim: list_all2_mono)

lemma gub_dims_at_least:
  "list_all2 dim_consistent xs ys \<Longrightarrow>
   list_all2 (\<lambda>x y. x = y \<or> dim_more_precise x y)
     (map (\<lambda>(t1, t2). if dim_more_precise t1 t2 then t1 else t2) (zip xs ys)) xs
   \<and> list_all2 (\<lambda>x y. x = y \<or> dim_more_precise x y)
     (map (\<lambda>(t1, t2). if dim_more_precise t1 t2 then t1 else t2) (zip xs ys)) ys"
proof (induction rule: list_all2_induct)
  case Nil
  then show ?case by simp
next
  case (Cons x xs y ys)
  have "(if dim_more_precise x y then x else y) = x \<or> dim_more_precise (if dim_more_precise x y then x else y) x"
    using Cons.hyps(1) by (cases x; cases y) auto
  moreover have "(if dim_more_precise x y then x else y) = y \<or> dim_more_precise (if dim_more_precise x y then x else y) y"
    using Cons.hyps(1) by (cases x; cases y) auto
  ultimately show ?case
    using Cons.IH by simp
qed

lemma gub_at_least:
  "is_consistent (TensorType k xs) (TensorType k' ys) \<Longrightarrow>
   get_greatest_upper_bound (TensorType k xs) (TensorType k' ys) = Inr g \<Longrightarrow>
   (\<exists>zs. g = TensorType TupleArgs zs) \<and> at_least_as_precise g (TensorType k xs)
   \<and> at_least_as_precise g (TensorType k' ys)"
  using gub_dims_at_least [of xs ys] by (auto split: if_splits)

lemma expand_at_least:
  "expand_to_tensor_dim t r = Inr t' \<Longrightarrow> at_least_as_precise (TensorType k zs) t' \<Longrightarrow>
   at_least_as_precise (TensorType k zs) t"
  by (cases t) (auto split: if_splits)

lemma expand_is_tensor:
  "expand_to_tensor_dim t r = Inr t' \<Longrightarrow> \<exists>k xs. t' = TensorType k xs \<and> length xs = r"
  by (cases t) (auto split: if_splits)

lemma expand_idem:
  "expand_to_tensor_dim t r = Inr t' \<Longrightarrow> expand_to_tensor_dim t' r = Inr t'"
  by (cases t) (auto split: if_splits)

lemma conv2d_new_type_is_tensor:
  "conv2d_new_type arg_type cm = Inr new_type \<Longrightarrow> \<exists>xs. new_type = TensorType TupleArgs xs"
  by (auto simp: conv2d_new_type_def split: sum.splits)

lemma conv2d_refines:
  assumes arg: "arg_node n 0 = Inr a"
    and run: "conv2d_inference_rule n cm st = (st', Inr t)"
    and inp: "expand_to_tensor_dim (st a) 4 = Inr arg_type"
    and new: "conv2d_new_type arg_type cm = Inr new_type"
  shows "st' (nid n) = t \<and> at_least_as_precise t (st (nid n)) \<and> at_least_as_precise t new_type"
proof -
  let ?st1 = "st(a := arg_type)"
  obtain curr where curr: "expand_to_tensor_dim (?st1 (nid n)) 4 = Inr curr"
    using run arg inp by (auto simp: conv2d_inference_rule_def Let_def split: sum.splits)
  obtain k ys where ys: "curr = TensorType k ys"
    using expand_is_tensor [OF curr] by blast
  obtain xs where xs: "new_type = TensorType TupleArgs xs"
    using conv2d_new_type_is_tensor [OF new] by blast
  have cons: "is_consistent new_type curr"
    using run arg inp new curr
    by (auto simp: conv2d_inference_rule_def Let_def split: sum.splits if_splits)
  have gub: "get_greatest_upper_bound new_type curr = Inr t" and upd: "st' = ?st1(nid n := t)"
    using run arg inp new curr
    by (auto simp: conv2d_inference_rule_def Let_def split: sum.splits if_splits)
  obtain zs where zs: "t = TensorType TupleArgs zs"
    and g1: "at_least_as_precise t new_type" and g2: "at_least_as_precise t curr"
    using gub_at_least [of TupleArgs xs k ys t] cons gub xs ys by auto
  have prior: "at_least_as_precise t (st (nid n))"
  proof (cases "a = nid n")
    case True
    then have "curr = arg_type"
      using curr expand_idem [OF inp] by simp
    then show ?thesis
      using expand_at_least [OF inp] g2 zs True by simp
  next
    case False
    then have "expand_to_tensor_dim (st (nid n)) 4 = Inr curr"
      using curr by simp
    then show ?thesis
      using expand_at_least g2 zs by blast
  qed
  show ?thesis
    using upd g1 prior by simp
qed

lemma relu_refines:
  assumes arg: "arg_node n 0 = Inr a"
    and run: "relu_inference_rule n st = (st', Inr t)"
  shows "st' (nid n) = t \<and> at_least_as_precise t (st (nid n))
     \<and> t = (if is_more_precise (st a) (st (nid n)) then st a else st (nid n))"
  using run arg
  by (auto simp: relu_inference_rule_def Let_def at_least_refl more_precise_at_least
           split: if_splits)

lemma bn2d_refines:
  assumes arg: "arg_node n 0 = Inr a"
    and run: "bn2d_inference_rule n f st = (st', Inr t)"
    and inp: "expand_to_tensor_dim (st a) 4 = Inr arg_type"
    and nod: "expand_to_tensor_dim ((st(a := arg_type)) (nid n)) 4 = Inr node_type"
  shows "st' (nid n) = t \<and> at_least_as_precise t (st (nid n))
     \<and> t = (if is_more_precise arg_type node_type then arg_type else node_type)"
proof -
  have t: "t = (if is_more_precise arg_type node_type then arg_type else node_type)"
    and upd: "st' (nid n) = t"
    using run arg inp nod
    by (auto simp: bn2d_inference_rule_def Let_def split: sum.splits if_splits)
  obtain k zs where zs: "t = TensorType k zs"
    using t expand_is_tensor [OF inp] expand_is_tensor [OF nod] by (auto split: if_splits)
  have "at_least_as_precise t node_type"
    using t by (auto simp: at_least_refl more_precise_at_least)
  then have n1: "at_least_as_precise t ((st(a := arg_type)) (nid n))"
    using expand_at_least [OF nod] zs by simp
  have "at_least_as_precise t (st (nid n))"
  proof (cases "a = nid n")
    case True
    then show ?thesis
      using n1 expand_at_least [OF inp] zs by simp
  next
    case False
    then show ?thesis using n1 by simp
  qed
  then show ?thesis
    using t upd by simp
qed

lemma reduce_from_known:
  "NoneD \<notin> set ys \<Longrightarrow>
   reduce_from (IntD acc) (map (\<lambda>e. if e \<noteq> DynD then e else IntD 1) ys)
     = Inr (IntD (acc * known_product ys))"
proof (induction ys arbitrary: acc)
  case Nil
  then show ?case by (simp add: known_product_def)
next
  case (Cons y ys)
  then have IH: "\<And>acc. reduce_from (IntD acc) (map (\<lambda>e. if e \<noteq> DynD then e else IntD 1) ys)
     = Inr (IntD (acc * known_product ys))"
    by simp
  show ?case
  proof (cases y)
    case DynD
    then show ?thesis using IH [of acc] by (simp add: known_product_def)
  next
    case (IntD k)
    then show ?thesis using IH [of "acc * k"] by (simp add: known_product_def mult.assoc)
  next
    case NoneD
    then show ?thesis using Cons.prems by simp
  qed
qed

lemma reduce_mul_known:
  "xs \<noteq> [] \<Longrightarrow> NoneD \<notin> set xs \<Longrightarrow>
   reduce_mul (map (\<lambda>e. if e \<noteq> DynD then e else IntD 1) xs) = Inr (IntD (known_product xs))"
proof (cases xs)
  case Nil
  assume "xs \<noteq> []" then show ?thesis using Nil by simp
next
  case (Cons x ys)
  assume n: "NoneD \<notin> set xs"
  then have ys: "NoneD \<notin> set ys" using Cons by simp
  show ?thesis
  proof (cases x)
    case DynD
    then show ?thesis
      using Cons reduce_from_known [OF ys, of 1] by (simp add: known_product_def)
  next
    case (IntD k)
    then show ?thesis
      using Cons reduce_from_known [OF ys, of k] by (simp add: known_product_def)
  next
    case NoneD
    then show ?thesis using n Cons by simp
  qed
qed

lemma map_no_dyn: "DynD \<notin> set xs \<Longrightarrow> map (\<lambda>e. if e \<noteq> DynD then e else IntD 1) xs = xs"
  by (induction xs) auto

lemma reduce_mul_concrete:
  "xs \<noteq> [] \<Longrightarrow> NoneD \<notin> set xs \<Longrightarrow> DynD \<notin> set xs \<Longrightarrow>
   reduce_mul xs = Inr (IntD (known_product xs))"
  using reduce_mul_known [of xs] map_no_dyn [of xs] by simp

lemma foldl_mult: "foldl (\<lambda>a b. a * b) (x::int) xs = x * prod_list xs"
  by (induction xs arbitrary: x) (simp_all add: mult.assoc)

lemma reduce_mul_int_prod: "t2 \<noteq> [] \<Longrightarrow> reduce_mul_int t2 = Inr (prod_list t2)"
  by (cases t2) (simp_all add: foldl_mult)

lemma abs_prod_target: "\<bar>prod_list t2\<bar> = \<bar>target_known_product t2\<bar>"
  by (induction t2) (auto simp: target_known_product_def abs_mult)

lemma divides_either_dvd:
  "p2 \<noteq> 0 \<Longrightarrow> divides_either (IntD p1) p2 = Inr (p2 dvd p1 \<or> p1 dvd p2)"
  by (auto simp: py_mod_def mod_eq_0_iff_dvd)

lemma prod_dvd_iff: "(prod_list ts dvd k) = (target_known_product ts dvd k)"
  using abs_prod_target [of ts] by (metis abs_dvd_iff)

lemma dvd_prod_iff: "(k dvd prod_list ts) = (k dvd target_known_product ts)"
  using abs_prod_target [of ts] by (metis dvd_abs_iff)

lemma rank_3_or_4:
  "length xs = 3 \<or> length xs = 4 \<Longrightarrow>
   (\<exists>a b c. xs = [a, b, c]) \<or> (\<exists>a b c d. xs = [a, b, c, d])"
  by (cases xs; simp; rename_tac ys; case_tac ys; simp; rename_tac zs; case_tac zs; simp;
      rename_tac ws; case_tac ws; simp)

lemma is_TensorType_not_others: "is_TensorType t \<Longrightarrow> t \<noteq> Dyn \<and> t \<noteq> IntT \<and> t \<noteq> NoneT"
  by (cases t) simp_all

lemma calculate_pool_dim:
  "i < 2 \<Longrightarrow> axis (stride m) 0 \<noteq> 0 \<Longrightarrow> calculate d m i = Inr (pool_dim d m i)"
  using calculate_IntD [of i m] by (cases d) simp_all

lemma calculate_no_stride:
  "i < 2 \<Longrightarrow> axis (stride m) 0 = 0 \<Longrightarrow>
   calculate d m i = (if is_int_dim d then Inl ZeroDivisionError else Inr d)"
proof -
  assume i: "i < 2" and s: "axis (stride m) 0 = 0"
  have z: "(0::nat) < 2" by simp
  show ?thesis
    using s by (cases d) (simp_all add: pair_at_axis [OF i] pair_at_axis [OF z] Let_def)
qed

lemma maxpool2d_check_rank:
  assumes r: "length xs = 3 \<or> length xs = 4" and s: "axis (stride m) 0 \<noteq> 0"
  shows "maxpool2d_check (TensorType k xs) m =
           Inr (TensorType TupleArgs (take (length xs - 2) xs @
                  [pool_dim (xs ! (length xs - 2)) m 0, pool_dim (xs ! (length xs - 1)) m 1]))"
proof -
  have c0: "\<And>d. calculate d m 0 = Inr (pool_dim d m 0)"
    using calculate_pool_dim [of 0 m] s by simp
  have c1: "\<And>d. calculate d m (Suc 0) = Inr (pool_dim d m (Suc 0))"
    using calculate_pool_dim [of 1 m] s by simp
  show ?thesis
    using rank_3_or_4 [OF r] by (auto simp: c0 c1 Let_def simp del: calculate.simps pool_dim.simps)
qed

lemma maxpool2d_check_no_stride:
  assumes r: "length xs = 3 \<or> length xs = 4" and s: "axis (stride m) 0 = 0"
  shows "maxpool2d_check (TensorType k xs) m =
           (if is_int_dim (xs ! (length xs - 2)) \<or> is_int_dim (xs ! (length xs - 1))
            then Inl ZeroDivisionError
            else Inr (TensorType TupleArgs xs))"
proof -
  have c0: "\<And>d. calculate d m 0 = (if is_int_dim d then Inl ZeroDivisionError else Inr d)"
    using calculate_no_stride [of 0 m] s by simp
  have c1: "\<And>d. calculate d m (Suc 0) = (if is_int_dim d then Inl ZeroDivisionError else Inr d)"
    using calculate_no_stride [of 1 m] s by simp
  show ?thesis
    using rank_3_or_4 [OF r] by (auto simp: c0 c1 Let_def simp del: calculate.simps)
qed

lemma maxpool2d_check_wrong_rank:
  "length xs \<noteq> 3 \<Longrightarrow> length xs \<noteq> 4 \<Longrightarrow>
   maxpool2d_check (TensorType k xs) m = Inl (TypeError (WrongSize (TensorType k xs) (MaxPool2d m)))"
  by simp

lemma broadcast_loop_same:
  "i + length xs \<le> length zs \<Longrightarrow> \<forall>k<length xs. zs ! (i + k) = xs ! k \<Longrightarrow>
   broadcast_loop i (zip xs xs) zs zs = (zs, zs)"
proof (induction xs arbitrary: i)
  case Nil
  then show ?case by simp
next
  case (Cons x xs)
  have at_i: "zs ! i = x"
    using Cons.prems(2) by (metis add.right_neutral length_greater_0_conv list.discI nth_Cons_0)
  have rest: "\<forall>k<length xs. zs ! (Suc i + k) = xs ! k"
  proof (intro allI impI)
    fix k assume "k < length xs"
    then have "zs ! (i + Suc k) = (x # xs) ! Suc k"
      using Cons.prems(2) by (metis Suc_less_eq length_Cons)
    then show "zs ! (Suc i + k) = xs ! k" by simp
  qed
  have len: "Suc i + length xs \<le> length zs"
    using Cons.prems(1) by simp
  have upd: "zs[i := x] = zs"
    using at_i by (metis list_update_id)
  show ?case
  proof (cases "x = IntD 1")
    case True
    then have "zs[i := IntD 1] = zs" using upd by simp
    then show ?thesis
      using Cons.IH [OF len rest] True by simp
  next
    case False
    then show ?thesis
      using Cons.IH [OF len rest] by simp
  qed
qed

section \<open>Broadcasting a type with itself\<close>

text \<open>
  C9. Broadcasting a tensor-shape type of rank at least 1 with itself changes neither
  shape, and \<^verbatim>\<open>broadcast_types\<close> is meant to return the pair unchanged. It decides
  that a shape has changed by comparing \<^verbatim>\<open>tuple(new_t)\<close> with \<^verbatim>\<open>t.__args__\<close>, which
  always differ when \<^verbatim>\<open>__args__\<close> is a list, as it is in the types the reshape and the
  transpose rule build. So for the type \<open>[6, 4]\<close> that the reshape rule gives a node,
  broadcasting the type with itself raises the in-place error, and so does the add rule
  on that node and itself; the same shape held as a tuple is returned unchanged.
\<close>

theorem broadcast_types_rejects_list_backed:
  "reshape_inference_rule (reshape_node [6, 4])
     (store_of (TensorType TupleArgs [IntD 2, IntD 3, IntD 4]) Dyn)
    = (store_of (TensorType TupleArgs [IntD 2, IntD 3, IntD 4]) (TensorType ListArgs [IntD 6, IntD 4]),
       Inr (TensorType ListArgs [IntD 6, IntD 4]))
   \<and> broadcast_types (TensorType ListArgs [IntD 6, IntD 4]) (TensorType ListArgs [IntD 6, IntD 4])
    = Inl (TypeError InPlaceShape)
   \<and> add_inference_rule add_self_node
        (store_of (TensorType TupleArgs [IntD 2, IntD 3, IntD 4]) (TensorType ListArgs [IntD 6, IntD 4]))
    = (store_of (TensorType TupleArgs [IntD 2, IntD 3, IntD 4]) (TensorType ListArgs [IntD 6, IntD 4]),
       Inl (TypeError InPlaceShape))
   \<and> broadcast_types (TensorType TupleArgs [IntD 6, IntD 4]) (TensorType TupleArgs [IntD 6, IntD 4])
    = Inr (TensorType TupleArgs [IntD 6, IntD 4], TensorType TupleArgs [IntD 6, IntD 4])"
proof -
  have a: "arg_node (reshape_node [6, 4]) 0 = Inr 0"
    and l: "arg_list (reshape_node [6, 4]) (Suc 0) = Inr [6, 4]"
    and n: "nid (reshape_node [6, 4]) = 1"
    by (simp_all add: arg_node_def arg_list_def reshape_node_def)
  have r: "reshape_inference_rule (reshape_node [6, 4])
     (store_of (TensorType TupleArgs [IntD 2, IntD 3, IntD 4]) Dyn)
    = (store_of (TensorType TupleArgs [IntD 2, IntD 3, IntD 4]) (TensorType ListArgs [IntD 6, IntD 4]),
       Inr (TensorType ListArgs [IntD 6, IntD 4]))"
    by (simp add: reshape_inference_rule_def a l n store_of_def Let_def)
  have b: "broadcast_types (TensorType ListArgs [IntD 6, IntD 4]) (TensorType ListArgs [IntD 6, IntD 4])
    = Inl (TypeError InPlaceShape)"
    by (simp add: broadcast_types_def Let_def)
  have b': "broadcast_types (TensorType TupleArgs [IntD 6, IntD 4]) (TensorType TupleArgs [IntD 6, IntD 4])
    = Inr (TensorType TupleArgs [IntD 6, IntD 4], TensorType TupleArgs [IntD 6, IntD 4])"
    by (simp add: broadcast_types_def Let_def)
  have a0: "arg_node add_self_node 0 = Inr 1" and a1: "arg_node add_self_node (Suc 0) = Inr 1"
    by (simp_all add: arg_node_def add_self_node_def)
  have ad: "add_inference_rule add_self_node
        (store_of (TensorType TupleArgs [IntD 2, IntD 3, IntD 4]) (TensorType ListArgs [IntD 6, IntD 4]))
    = (store_of (TensorType TupleArgs [IntD 2, IntD 3, IntD 4]) (TensorType ListArgs [IntD 6, IntD 4]),
       Inl (TypeError InPlaceShape))"
    using a0 a1 b by (simp add: add_inference_rule_def store_of_def Let_def)
  show ?thesis
    using r b b' ad by simp
qed

section \<open>What a rule's result has to do with the prior annotation\<close>

text \<open>
  C1, as the code has it. When the 2D convolution rule runs to completion, the node's
  type field holds the returned type, and that type is at least as precise as the
  node's prior annotation and as the candidate output type computed from the input
  node's type: the rule takes the greatest upper bound of the two. When the
  rectified-linear rule or the 2D batch-norm rule runs to completion, the node's type
  field holds the returned type, which is at least as precise as the prior annotation;
  it is the input node's type (expanded to rank 4 for batch norm) when that is more
  precise than the annotation, and the annotation (expanded to rank 4 for batch norm)
  otherwise. The other six rules are left out: add, transpose and reshape do not read
  the prior annotation, and max-pool, linear and adaptive average pooling transform it.
\<close>

theorem rules_refine_annotation:
  "(arg_node n 0 = Inr a \<and> conv2d_inference_rule n cm st = (st', Inr t)
      \<and> expand_to_tensor_dim (st a) 4 = Inr arg_type
      \<and> conv2d_new_type arg_type cm = Inr new_type \<longrightarrow>
      st' (nid n) = t \<and> at_least_as_precise t (st (nid n)) \<and> at_least_as_precise t new_type)
   \<and> (arg_node n 0 = Inr a \<and> relu_inference_rule n st = (st', Inr t) \<longrightarrow>
      st' (nid n) = t \<and> at_least_as_precise t (st (nid n))
      \<and> t = (if is_more_precise (st a) (st (nid n)) then st a else st (nid n)))
   \<and> (arg_node n 0 = Inr a \<and> bn2d_inference_rule n f st = (st', Inr t)
      \<and> expand_to_tensor_dim (st a) 4 = Inr arg_type
      \<and> expand_to_tensor_dim ((st(a := arg_type)) (nid n)) 4 = Inr node_type \<longrightarrow>
      st' (nid n) = t \<and> at_least_as_precise t (st (nid n))
      \<and> t = (if is_more_precise arg_type node_type then arg_type else node_type))"
  using conv2d_refines [of n a cm st st' t arg_type new_type]
    relu_refines [of n a st st' t]
    bn2d_refines [of n a f st st' t arg_type node_type]
  by blast

theorem rules_refine_annotation_witness:
  "arg_node conv_node 0 = Inr 0
   \<and> conv2d_inference_rule conv_node conv_3_16
        (store_of (TensorType TupleArgs [DynD, IntD 3, IntD 32, IntD 32]) (TensorType TupleArgs [IntD 1, DynD, DynD, DynD]))
      = (store_of (TensorType TupleArgs [DynD, IntD 3, IntD 32, IntD 32])
                  (TensorType TupleArgs [IntD 1, IntD 16, IntD 30, IntD 30]),
         Inr (TensorType TupleArgs [IntD 1, IntD 16, IntD 30, IntD 30]))
   \<and> conv2d_new_type (TensorType TupleArgs [DynD, IntD 3, IntD 32, IntD 32]) conv_3_16
      = Inr (TensorType TupleArgs [DynD, IntD 16, IntD 30, IntD 30])
   \<and> at_least_as_precise (TensorType TupleArgs [IntD 1, IntD 16, IntD 30, IntD 30])
        (TensorType TupleArgs [IntD 1, DynD, DynD, DynD])
   \<and> at_least_as_precise (TensorType TupleArgs [IntD 1, IntD 16, IntD 30, IntD 30])
        (TensorType TupleArgs [DynD, IntD 16, IntD 30, IntD 30])
   \<and> arg_node relu_node 0 = Inr 0
   \<and> relu_inference_rule relu_node (store_of (TensorType TupleArgs [IntD 2, IntD 3]) (TensorType TupleArgs [DynD, IntD 3]))
      = (store_of (TensorType TupleArgs [IntD 2, IntD 3]) (TensorType TupleArgs [IntD 2, IntD 3]),
         Inr (TensorType TupleArgs [IntD 2, IntD 3]))
   \<and> at_least_as_precise (TensorType TupleArgs [IntD 2, IntD 3]) (TensorType TupleArgs [DynD, IntD 3])
   \<and> bn2d_inference_rule relu_node 3 (store_of Dyn (TensorType TupleArgs [IntD 1, IntD 3, IntD 8, IntD 8]))
      = (store_of (TensorType TupleArgs [DynD, DynD, DynD, DynD]) (TensorType TupleArgs [IntD 1, IntD 3, IntD 8, IntD 8]),
         Inr (TensorType TupleArgs [IntD 1, IntD 3, IntD 8, IntD 8]))
   \<and> at_least_as_precise (TensorType TupleArgs [IntD 1, IntD 3, IntD 8, IntD 8])
        (TensorType TupleArgs [IntD 1, IntD 3, IntD 8, IntD 8])"
proof -
  let ?sc = "store_of (TensorType TupleArgs [DynD, IntD 3, IntD 32, IntD 32]) (TensorType TupleArgs [IntD 1, DynD, DynD, DynD])"
  let ?sc' = "store_of (TensorType TupleArgs [DynD, IntD 3, IntD 32, IntD 32])
                  (TensorType TupleArgs [IntD 1, IntD 16, IntD 30, IntD 30])"
  let ?sr = "store_of (TensorType TupleArgs [IntD 2, IntD 3]) (TensorType TupleArgs [DynD, IntD 3])"
  let ?sr' = "store_of (TensorType TupleArgs [IntD 2, IntD 3]) (TensorType TupleArgs [IntD 2, IntD 3])"
  let ?sb = "store_of Dyn (TensorType TupleArgs [IntD 1, IntD 3, IntD 8, IntD 8])"
  let ?sb' = "store_of (TensorType TupleArgs [DynD, DynD, DynD, DynD]) (TensorType TupleArgs [IntD 1, IntD 3, IntD 8, IntD 8])"
  have ac: "arg_node conv_node 0 = Inr 0" and ar: "arg_node relu_node 0 = Inr 0"
    by (simp_all add: arg_node_def conv_node_def relu_node_def)
  have nt: "conv2d_new_type (TensorType TupleArgs [DynD, IntD 3, IntD 32, IntD 32]) conv_3_16
      = Inr (TensorType TupleArgs [DynD, IntD 16, IntD 30, IntD 30])"
    by (simp add: conv2d_new_type_def conv_3_16_def)
  have ec: "expand_to_tensor_dim (?sc 0) 4 = Inr (TensorType TupleArgs [DynD, IntD 3, IntD 32, IntD 32])"
    by (simp add: store_of_def)
  have rc: "conv2d_inference_rule conv_node conv_3_16 ?sc
            = (?sc', Inr (TensorType TupleArgs [IntD 1, IntD 16, IntD 30, IntD 30]))"
    using ac nt by (simp add: conv2d_inference_rule_def store_of_def conv_node_def conv_3_16_def)
  have rr: "relu_inference_rule relu_node ?sr = (?sr', Inr (TensorType TupleArgs [IntD 2, IntD 3]))"
    using ar by (simp add: relu_inference_rule_def store_of_def relu_node_def Let_def)
  have eb: "expand_to_tensor_dim (?sb 0) 4 = Inr (TensorType TupleArgs [DynD, DynD, DynD, DynD])"
    by (simp add: store_of_def numeral_eq_Suc)
  have eb': "expand_to_tensor_dim ((?sb(0 := TensorType TupleArgs [DynD, DynD, DynD, DynD])) (nid relu_node)) 4
             = Inr (TensorType TupleArgs [IntD 1, IntD 3, IntD 8, IntD 8])"
    by (simp add: store_of_def relu_node_def)
  have rb: "bn2d_inference_rule relu_node 3 ?sb
            = (?sb', Inr (TensorType TupleArgs [IntD 1, IntD 3, IntD 8, IntD 8]))"
    using ar by (simp add: bn2d_inference_rule_def store_of_def relu_node_def numeral_eq_Suc)
  have w1: "at_least_as_precise (TensorType TupleArgs [IntD 1, IntD 16, IntD 30, IntD 30]) (?sc (nid conv_node))
        \<and> at_least_as_precise (TensorType TupleArgs [IntD 1, IntD 16, IntD 30, IntD 30])
             (TensorType TupleArgs [DynD, IntD 16, IntD 30, IntD 30])"
    using rules_refine_annotation [where n = conv_node and a = 0 and cm = conv_3_16 and st = ?sc
        and st' = ?sc' and t = "TensorType TupleArgs [IntD 1, IntD 16, IntD 30, IntD 30]"
        and arg_type = "TensorType TupleArgs [DynD, IntD 3, IntD 32, IntD 32]"
        and new_type = "TensorType TupleArgs [DynD, IntD 16, IntD 30, IntD 30]"]
      ac rc ec nt by blast
  have w2: "at_least_as_precise (TensorType TupleArgs [IntD 2, IntD 3]) (?sr (nid relu_node))"
    using rules_refine_annotation [where n = relu_node and a = 0 and st = ?sr
        and st' = ?sr' and t = "TensorType TupleArgs [IntD 2, IntD 3]"]
      ar rr by blast
  have w3: "at_least_as_precise (TensorType TupleArgs [IntD 1, IntD 3, IntD 8, IntD 8]) (?sb (nid relu_node))"
    using rules_refine_annotation [where n = relu_node and a = 0 and f = 3 and st = ?sb
        and st' = ?sb' and t = "TensorType TupleArgs [IntD 1, IntD 3, IntD 8, IntD 8]"
        and arg_type = "TensorType TupleArgs [DynD, DynD, DynD, DynD]"
        and node_type = "TensorType TupleArgs [IntD 1, IntD 3, IntD 8, IntD 8]"]
      ar rb eb eb' by blast
  have s1: "?sc (nid conv_node) = TensorType TupleArgs [IntD 1, DynD, DynD, DynD]"
    and s2: "?sr (nid relu_node) = TensorType TupleArgs [DynD, IntD 3]"
    and s3: "?sb (nid relu_node) = TensorType TupleArgs [IntD 1, IntD 3, IntD 8, IntD 8]"
    by (simp_all add: store_of_def conv_node_def relu_node_def)
  show ?thesis
    using ac ar nt rc rr rb w1 w2 w3 s1 s2 s3 by simp
qed

text \<open>
  The property fails as stated for all nine rules. A max-pool node whose annotation
  \<open>(1, 3, 8, 8)\<close> is exactly the type its input \<open>(1, 3, 16, 16)\<close> implies ends with
  \<open>(1, 3, 4, 4)\<close>, since the rule pools the annotation as well. A rectified-linear node
  annotated \<open>(1, Dyn)\<close> with input type \<open>(Dyn, 2)\<close> keeps \<open>(1, Dyn)\<close>, which is not at
  least as precise as the input type. An add node annotated \<open>(2, 3)\<close> with operands of
  type \<open>(Dyn, 3)\<close> ends with \<open>(Dyn, 3)\<close>.
\<close>

theorem precision_invariant_counterexample:
  "maxpool2d_inference_rule pool_node pool_2x2
     (store_of (TensorType TupleArgs [IntD 1, IntD 3, IntD 16, IntD 16]) (TensorType TupleArgs [IntD 1, IntD 3, IntD 8, IntD 8]))
    = (store_of (TensorType TupleArgs [IntD 1, IntD 3, IntD 16, IntD 16]) (TensorType TupleArgs [IntD 1, IntD 3, IntD 4, IntD 4]),
       Inr (TensorType TupleArgs [IntD 1, IntD 3, IntD 4, IntD 4]))
   \<and> maxpool2d_check (TensorType TupleArgs [IntD 1, IntD 3, IntD 16, IntD 16]) pool_2x2
      = Inr (TensorType TupleArgs [IntD 1, IntD 3, IntD 8, IntD 8])
   \<and> is_consistent (TensorType TupleArgs [IntD 1, IntD 3, IntD 8, IntD 8]) (TensorType TupleArgs [IntD 1, IntD 3, IntD 8, IntD 8])
   \<and> \<not> at_least_as_precise (TensorType TupleArgs [IntD 1, IntD 3, IntD 4, IntD 4])
                             (TensorType TupleArgs [IntD 1, IntD 3, IntD 8, IntD 8])
   \<and> relu_inference_rule relu_node (store_of (TensorType TupleArgs [DynD, IntD 2]) (TensorType TupleArgs [IntD 1, DynD]))
      = (store_of (TensorType TupleArgs [DynD, IntD 2]) (TensorType TupleArgs [IntD 1, DynD]),
         Inr (TensorType TupleArgs [IntD 1, DynD]))
   \<and> is_consistent (TensorType TupleArgs [DynD, IntD 2]) (TensorType TupleArgs [IntD 1, DynD])
   \<and> \<not> at_least_as_precise (TensorType TupleArgs [IntD 1, DynD]) (TensorType TupleArgs [DynD, IntD 2])
   \<and> add_inference_rule add_node
        ((store_of (TensorType TupleArgs [DynD, IntD 3]) (TensorType TupleArgs [DynD, IntD 3])) (2 := TensorType TupleArgs [IntD 2, IntD 3]))
      = ((store_of (TensorType TupleArgs [DynD, IntD 3]) (TensorType TupleArgs [DynD, IntD 3])) (2 := TensorType TupleArgs [DynD, IntD 3]),
         Inr (TensorType TupleArgs [DynD, IntD 3]))
   \<and> is_consistent (TensorType TupleArgs [IntD 2, IntD 3]) (TensorType TupleArgs [DynD, IntD 3])
   \<and> \<not> at_least_as_precise (TensorType TupleArgs [DynD, IntD 3]) (TensorType TupleArgs [IntD 2, IntD 3])"
proof -
  have c1: "maxpool2d_check (TensorType TupleArgs [IntD 1, IntD 3, IntD 16, IntD 16]) pool_2x2
      = Inr (TensorType TupleArgs [IntD 1, IntD 3, IntD 8, IntD 8])"
    and c2: "maxpool2d_check (TensorType TupleArgs [IntD 1, IntD 3, IntD 8, IntD 8]) pool_2x2
      = Inr (TensorType TupleArgs [IntD 1, IntD 3, IntD 4, IntD 4])"
    by (simp_all add: pool_2x2_def Let_def)
  have ap: "arg_node pool_node 0 = Inr 0" and ar: "arg_node relu_node 0 = Inr 0"
    and a0: "arg_node add_node 0 = Inr 0" and a1: "arg_node add_node (Suc 0) = Inr 1"
    by (simp_all add: arg_node_def pool_node_def relu_node_def add_node_def)
  have m: "maxpool2d_inference_rule pool_node pool_2x2
     (store_of (TensorType TupleArgs [IntD 1, IntD 3, IntD 16, IntD 16]) (TensorType TupleArgs [IntD 1, IntD 3, IntD 8, IntD 8]))
    = (store_of (TensorType TupleArgs [IntD 1, IntD 3, IntD 16, IntD 16]) (TensorType TupleArgs [IntD 1, IntD 3, IntD 4, IntD 4]),
       Inr (TensorType TupleArgs [IntD 1, IntD 3, IntD 4, IntD 4]))"
    using ap c1 c2 by (simp add: maxpool2d_inference_rule_def store_of_def pool_node_def)
  have r: "relu_inference_rule relu_node (store_of (TensorType TupleArgs [DynD, IntD 2]) (TensorType TupleArgs [IntD 1, DynD]))
      = (store_of (TensorType TupleArgs [DynD, IntD 2]) (TensorType TupleArgs [IntD 1, DynD]),
         Inr (TensorType TupleArgs [IntD 1, DynD]))"
    using ar by (simp add: relu_inference_rule_def store_of_def relu_node_def Let_def)
  have b: "broadcast_types (TensorType TupleArgs [DynD, IntD 3]) (TensorType TupleArgs [DynD, IntD 3])
           = Inr (TensorType TupleArgs [DynD, IntD 3], TensorType TupleArgs [DynD, IntD 3])"
    by (simp add: broadcast_types_def Let_def)
  have ad: "add_inference_rule add_node
        ((store_of (TensorType TupleArgs [DynD, IntD 3]) (TensorType TupleArgs [DynD, IntD 3])) (2 := TensorType TupleArgs [IntD 2, IntD 3]))
      = ((store_of (TensorType TupleArgs [DynD, IntD 3]) (TensorType TupleArgs [DynD, IntD 3])) (2 := TensorType TupleArgs [DynD, IntD 3]),
         Inr (TensorType TupleArgs [DynD, IntD 3]))"
    using a0 a1 b by (simp add: add_inference_rule_def store_of_def add_node_def Let_def)
  show ?thesis
    using c1 m r ad by simp
qed

section \<open>The output-size formula of convolution and pooling\<close>

text \<open>
  C3. For a concrete input size \<open>d\<close> at axis \<open>i\<close> (0 or 1) and a non-zero stride at
  index 0, \<^verbatim>\<open>calculate\<close> returns
  \<open>floor((d + 2 * p[i] - dilation[i] * (k[i] - 1) - 1) / s[0]) + 1\<close>, the attributes read
  from the module and a scalar attribute standing for both axes; the stride is the one
  at index 0 for either axis. A dynamic input size gives a dynamic output size. The 2D
  convolution rule on an input of type \<open>(1, 3, 32, 32)\<close> with kernel 3, stride 1,
  padding 0, dilation 1, 3 input and 16 output channels sets the type of a node
  annotated \<^verbatim>\<open>Dyn\<close> to \<open>(1, 16, 30, 30)\<close>.
\<close>

theorem calculate_output_size:
  "(i < 2 \<and> axis (stride m) 0 \<noteq> 0 \<longrightarrow>
      calculate (IntD d) m i =
        Inr (IntD ((d + 2 * axis (padding m) i - axis (dilation m) i * (axis (kernel_size m) i - 1) - 1)
                    div axis (stride m) 0 + 1)))
   \<and> calculate DynD m i = Inr DynD
   \<and> (arg_node n 0 = Inr a \<and> st a = TensorType k [IntD 1, IntD 3, IntD 32, IntD 32] \<and> st (nid n) = Dyn
      \<and> as_pair (kernel_size cm) = (3, 3) \<and> as_pair (stride cm) = (1, 1)
      \<and> as_pair (padding cm) = (0, 0) \<and> as_pair (dilation cm) = (1, 1)
      \<and> in_channels cm = 3 \<and> out_channels cm = 16 \<longrightarrow>
      conv2d_inference_rule n cm st =
        (st(nid n := TensorType TupleArgs [IntD 1, IntD 16, IntD 30, IntD 30]),
         Inr (TensorType TupleArgs [IntD 1, IntD 16, IntD 30, IntD 30])))"
proof (intro conjI impI)
  assume "i < 2 \<and> axis (stride m) 0 \<noteq> 0"
  then have i: "i < 2" and s: "axis (stride m) 0 \<noteq> 0" by simp_all
  show "calculate (IntD d) m i =
        Inr (IntD ((d + 2 * axis (padding m) i - axis (dilation m) i * (axis (kernel_size m) i - 1) - 1)
                    div axis (stride m) 0 + 1))"
    by (rule calculate_IntD [OF i s])
next
  show "calculate DynD m i = Inr DynD" by simp
next
  assume h: "arg_node n 0 = Inr a \<and> st a = TensorType k [IntD 1, IntD 3, IntD 32, IntD 32] \<and> st (nid n) = Dyn
      \<and> as_pair (kernel_size cm) = (3, 3) \<and> as_pair (stride cm) = (1, 1)
      \<and> as_pair (padding cm) = (0, 0) \<and> as_pair (dilation cm) = (1, 1)
      \<and> in_channels cm = 3 \<and> out_channels cm = 16"
  then have ne: "a \<noteq> nid n" by auto
  have nt: "conv2d_new_type (TensorType k [IntD 1, IntD 3, IntD 32, IntD 32]) cm
            = Inr (TensorType TupleArgs [IntD 1, IntD 16, IntD 30, IntD 30])"
    using h by (simp add: conv2d_new_type_def)
  have same: "st(a := TensorType k [IntD 1, IntD 3, IntD 32, IntD 32]) = st"
    using h by auto
  show "conv2d_inference_rule n cm st =
        (st(nid n := TensorType TupleArgs [IntD 1, IntD 16, IntD 30, IntD 30]),
         Inr (TensorType TupleArgs [IntD 1, IntD 16, IntD 30, IntD 30]))"
    using h ne nt same by (simp add: conv2d_inference_rule_def numeral_eq_Suc)
qed

theorem calculate_output_size_witness:
  "(1::nat) < 2 \<and> axis (stride pool_uneven) 0 \<noteq> 0
   \<and> calculate (IntD 10) pool_uneven 1 = Inr (IntD 5)
   \<and> calculate DynD pool_uneven 1 = Inr DynD
   \<and> arg_node conv_node 0 = Inr 0
   \<and> conv2d_inference_rule conv_node conv_3_16
        (store_of (TensorType TupleArgs [IntD 1, IntD 3, IntD 32, IntD 32]) Dyn)
      = (store_of (TensorType TupleArgs [IntD 1, IntD 3, IntD 32, IntD 32])
           (TensorType TupleArgs [IntD 1, IntD 16, IntD 30, IntD 30]),
         Inr (TensorType TupleArgs [IntD 1, IntD 16, IntD 30, IntD 30]))"
  using calculate_output_size [where i = 1 and m = pool_uneven and d = 10 and n = conv_node
      and a = 0 and st = "store_of (TensorType TupleArgs [IntD 1, IntD 3, IntD 32, IntD 32]) Dyn"
      and cm = conv_3_16 and k = TupleArgs]
  by (simp add: axis_def pool_uneven_def conv_node_def conv_3_16_def store_of_def arg_node_def)

section \<open>Max-pooling with a dynamic input\<close>

text \<open>
  C7. For a 2D max-pool node whose input node has the dynamic type: if the node's own
  type is dynamic too, the rule returns \<^verbatim>\<open>Dyn\<close> and leaves the store as it is. If the
  node's own type is a tensor-shape type of rank 3 or 4 (and the stride at index 0 is
  not zero), the node's type becomes that type with its last two dimensions recomputed
  by the pooling formula, the height at axis 0 and the width at axis 1: an integer size
  \<open>d\<close> becomes \<open>floor((d + 2 * p[i] - dilation[i] * (k[i] - 1) - 1) / s[0]) + 1\<close>, a
  dynamic size stays dynamic, and the leading dimensions are kept. With a stride of
  zero the rule raises a division-by-zero error as soon as one of the two sizes is an
  integer, and a tensor-shape type of any other rank is rejected with the wrong-size
  error; in both cases nothing is written. A node type \<open>(1, 3, 8, 8)\<close> with a 2x2 pool
  of stride 2 becomes \<open>(1, 3, 4, 4)\<close>.
\<close>

theorem maxpool2d_dynamic_input:
  "arg_node n 0 = Inr a \<Longrightarrow> st a = Dyn \<Longrightarrow>
   (st (nid n) = Dyn \<longrightarrow> maxpool2d_inference_rule n m st = (st, Inr Dyn))
   \<and> (st (nid n) = TensorType k xs \<and> (length xs = 3 \<or> length xs = 4) \<and> axis (stride m) 0 \<noteq> 0 \<longrightarrow>
        maxpool2d_inference_rule n m st =
          (st(nid n := TensorType TupleArgs (take (length xs - 2) xs @
                 [pool_dim (xs ! (length xs - 2)) m 0, pool_dim (xs ! (length xs - 1)) m 1])),
           Inr (TensorType TupleArgs (take (length xs - 2) xs @
                 [pool_dim (xs ! (length xs - 2)) m 0, pool_dim (xs ! (length xs - 1)) m 1]))))
   \<and> pool_dim (IntD d) m i =
        IntD ((d + 2 * axis (padding m) i - axis (dilation m) i * (axis (kernel_size m) i - 1) - 1)
               div axis (stride m) 0 + 1)
   \<and> pool_dim DynD m i = DynD
   \<and> (st (nid n) = TensorType k xs \<and> (length xs = 3 \<or> length xs = 4) \<and> axis (stride m) 0 = 0 \<longrightarrow>
        maxpool2d_inference_rule n m st =
          (if is_int_dim (xs ! (length xs - 2)) \<or> is_int_dim (xs ! (length xs - 1))
           then (st, Inl ZeroDivisionError)
           else (st(nid n := TensorType TupleArgs xs), Inr (TensorType TupleArgs xs))))
   \<and> (st (nid n) = TensorType k xs \<and> length xs \<noteq> 3 \<and> length xs \<noteq> 4 \<longrightarrow>
        maxpool2d_inference_rule n m st =
          (st, Inl (TypeError (WrongSize (TensorType k xs) (MaxPool2d m)))))
   \<and> (st (nid n) = TensorType k [IntD 1, IntD 3, IntD 8, IntD 8]
       \<and> as_pair (kernel_size m) = (2, 2) \<and> as_pair (stride m) = (2, 2)
       \<and> as_pair (padding m) = (0, 0) \<and> as_pair (dilation m) = (1, 1) \<longrightarrow>
        maxpool2d_inference_rule n m st =
          (st(nid n := TensorType TupleArgs [IntD 1, IntD 3, IntD 4, IntD 4]),
           Inr (TensorType TupleArgs [IntD 1, IntD 3, IntD 4, IntD 4])))"
proof (intro conjI impI)
  assume a: "arg_node n 0 = Inr a" and d: "st a = Dyn"
  have rule: "st (nid n) = TensorType k xs \<Longrightarrow>
      maxpool2d_inference_rule n m st =
        (case maxpool2d_check (TensorType k xs) m of
           Inl e \<Rightarrow> (st, Inl e)
         | Inr t \<Rightarrow> (st(nid n := t), Inr t))"
    using a d by (simp add: maxpool2d_inference_rule_def)
  { assume "st (nid n) = Dyn"
    then show "maxpool2d_inference_rule n m st = (st, Inr Dyn)"
      using a d by (simp add: maxpool2d_inference_rule_def) }
  { assume h: "st (nid n) = TensorType k xs \<and> (length xs = 3 \<or> length xs = 4) \<and> axis (stride m) 0 \<noteq> 0"
    then have r: "length xs = 3 \<or> length xs = 4" and s: "axis (stride m) 0 \<noteq> 0" by simp_all
    show "maxpool2d_inference_rule n m st =
          (st(nid n := TensorType TupleArgs (take (length xs - 2) xs @
                 [pool_dim (xs ! (length xs - 2)) m 0, pool_dim (xs ! (length xs - 1)) m 1])),
           Inr (TensorType TupleArgs (take (length xs - 2) xs @
                 [pool_dim (xs ! (length xs - 2)) m 0, pool_dim (xs ! (length xs - 1)) m 1])))"
      using h rule maxpool2d_check_rank [OF r s, of k] by simp }
  { show "pool_dim (IntD d) m i =
        IntD ((d + 2 * axis (padding m) i - axis (dilation m) i * (axis (kernel_size m) i - 1) - 1)
               div axis (stride m) 0 + 1)"
      by simp }
  { show "pool_dim DynD m i = DynD" by simp }
  { assume h: "st (nid n) = TensorType k xs \<and> (length xs = 3 \<or> length xs = 4) \<and> axis (stride m) 0 = 0"
    then have r: "length xs = 3 \<or> length xs = 4" and s: "axis (stride m) 0 = 0" by simp_all
    show "maxpool2d_inference_rule n m st =
          (if is_int_dim (xs ! (length xs - 2)) \<or> is_int_dim (xs ! (length xs - 1))
           then (st, Inl ZeroDivisionError)
           else (st(nid n := TensorType TupleArgs xs), Inr (TensorType TupleArgs xs)))"
      using h rule maxpool2d_check_no_stride [OF r s, of k] by simp }
  { assume h: "st (nid n) = TensorType k xs \<and> length xs \<noteq> 3 \<and> length xs \<noteq> 4"
    then show "maxpool2d_inference_rule n m st =
          (st, Inl (TypeError (WrongSize (TensorType k xs) (MaxPool2d m))))"
      using a d by (simp add: maxpool2d_inference_rule_def) }
  { assume h: "st (nid n) = TensorType k [IntD 1, IntD 3, IntD 8, IntD 8]
       \<and> as_pair (kernel_size m) = (2, 2) \<and> as_pair (stride m) = (2, 2)
       \<and> as_pair (padding m) = (0, 0) \<and> as_pair (dilation m) = (1, 1)"
    have "maxpool2d_check (TensorType k [IntD 1, IntD 3, IntD 8, IntD 8]) m
          = Inr (TensorType TupleArgs [IntD 1, IntD 3, IntD 4, IntD 4])"
      using h by (simp add: Let_def)
    then show "maxpool2d_inference_rule n m st =
          (st(nid n := TensorType TupleArgs [IntD 1, IntD 3, IntD 4, IntD 4]),
           Inr (TensorType TupleArgs [IntD 1, IntD 3, IntD 4, IntD 4]))"
      using a d h by (simp add: maxpool2d_inference_rule_def) }
qed

theorem maxpool2d_dynamic_input_witness:
  "arg_node pool_node 0 = Inr 0
   \<and> maxpool2d_inference_rule pool_node pool_2x2 (store_of Dyn Dyn) = (store_of Dyn Dyn, Inr Dyn)
   \<and> maxpool2d_inference_rule pool_node pool_2x2
        (store_of Dyn (TensorType TupleArgs [IntD 1, IntD 3, IntD 8, IntD 8]))
      = (store_of Dyn (TensorType TupleArgs [IntD 1, IntD 3, IntD 4, IntD 4]),
         Inr (TensorType TupleArgs [IntD 1, IntD 3, IntD 4, IntD 4]))
   \<and> maxpool2d_inference_rule pool_node pool_uneven
        (store_of Dyn (TensorType ListArgs [IntD 3, DynD, IntD 10]))
      = (store_of Dyn (TensorType TupleArgs [IntD 3, DynD, IntD 5]),
         Inr (TensorType TupleArgs [IntD 3, DynD, IntD 5]))
   \<and> maxpool2d_inference_rule pool_node pool_no_stride
        (store_of Dyn (TensorType TupleArgs [IntD 1, IntD 3, IntD 8, IntD 8]))
      = (store_of Dyn (TensorType TupleArgs [IntD 1, IntD 3, IntD 8, IntD 8]), Inl ZeroDivisionError)
   \<and> maxpool2d_inference_rule pool_node pool_2x2
        (store_of Dyn (TensorType TupleArgs [IntD 8, IntD 8]))
      = (store_of Dyn (TensorType TupleArgs [IntD 8, IntD 8]),
         Inl (TypeError (WrongSize (TensorType TupleArgs [IntD 8, IntD 8]) (MaxPool2d pool_2x2))))"
proof -
  have a: "arg_node pool_node 0 = Inr 0"
    by (simp add: arg_node_def pool_node_def)
  have d: "\<And>t. store_of Dyn t 0 = Dyn" and s: "\<And>t. store_of Dyn t (nid pool_node) = t"
    and u: "\<And>t t'. (store_of Dyn t)(nid pool_node := t') = store_of Dyn t'"
    by (simp_all add: store_of_def pool_node_def)
  have w1: "maxpool2d_inference_rule pool_node pool_2x2 (store_of Dyn Dyn) = (store_of Dyn Dyn, Inr Dyn)"
    using maxpool2d_dynamic_input [where n = pool_node and a = 0 and st = "store_of Dyn Dyn"
        and m = pool_2x2] a d s
    by simp
  have w2: "maxpool2d_inference_rule pool_node pool_2x2
        (store_of Dyn (TensorType TupleArgs [IntD 1, IntD 3, IntD 8, IntD 8]))
      = (store_of Dyn (TensorType TupleArgs [IntD 1, IntD 3, IntD 4, IntD 4]),
         Inr (TensorType TupleArgs [IntD 1, IntD 3, IntD 4, IntD 4]))"
    using maxpool2d_dynamic_input [where n = pool_node and a = 0 and m = pool_2x2
        and st = "store_of Dyn (TensorType TupleArgs [IntD 1, IntD 3, IntD 8, IntD 8])"
        and k = TupleArgs and xs = "[IntD 1, IntD 3, IntD 8, IntD 8]"] a d s u
    by (simp add: axis_def pool_2x2_def)
  have w3: "maxpool2d_inference_rule pool_node pool_uneven
        (store_of Dyn (TensorType ListArgs [IntD 3, DynD, IntD 10]))
      = (store_of Dyn (TensorType TupleArgs [IntD 3, DynD, IntD 5]),
         Inr (TensorType TupleArgs [IntD 3, DynD, IntD 5]))"
    using maxpool2d_dynamic_input [where n = pool_node and a = 0 and m = pool_uneven
        and st = "store_of Dyn (TensorType ListArgs [IntD 3, DynD, IntD 10])"
        and k = ListArgs and xs = "[IntD 3, DynD, IntD 10]"] a d s u
    by (simp add: axis_def pool_uneven_def)
  have w4: "maxpool2d_inference_rule pool_node pool_no_stride
        (store_of Dyn (TensorType TupleArgs [IntD 1, IntD 3, IntD 8, IntD 8]))
      = (store_of Dyn (TensorType TupleArgs [IntD 1, IntD 3, IntD 8, IntD 8]), Inl ZeroDivisionError)"
    using maxpool2d_dynamic_input [where n = pool_node and a = 0 and m = pool_no_stride
        and st = "store_of Dyn (TensorType TupleArgs [IntD 1, IntD 3, IntD 8, IntD 8])"
        and k = TupleArgs and xs = "[IntD 1, IntD 3, IntD 8, IntD 8]"] a d s u
    by (simp add: axis_def pool_no_stride_def)
  have w5: "maxpool2d_inference_rule pool_node pool_2x2
        (store_of Dyn (TensorType TupleArgs [IntD 8, IntD 8]))
      = (store_of Dyn (TensorType TupleArgs [IntD 8, IntD 8]),
         Inl (TypeError (WrongSize (TensorType TupleArgs [IntD 8, IntD 8]) (MaxPool2d pool_2x2))))"
    using maxpool2d_dynamic_input [where n = pool_node and a = 0 and m = pool_2x2
        and st = "store_of Dyn (TensorType TupleArgs [IntD 8, IntD 8])"
        and k = TupleArgs and xs = "[IntD 8, IntD 8]"] a d s u
    by simp
  show ?thesis
    using a w1 w2 w3 w4 w5 by simp
qed

section \<open>What the convolution rule leaves behind when it raises\<close>

text \<open>
  C10. For a 2D convolution node whose input node (a node other than itself) has the
  dynamic type or a tensor-shape type of rank 4: whatever the rule does next, it has
  first overwritten the input node's type with its rank-4 expansion (for a dynamic
  input the rank-4 type of four dynamic dimensions), and the write stays. When the rule
  raises, in particular with the error for a channel dimension (axis 1) inconsistent
  with the module's \<^verbatim>\<open>in_channels\<close>, nothing else was written: the node's own type
  field is as before. With an expandable node type and an inconsistent channel
  dimension the rule does raise that error.
\<close>

theorem conv2d_error_keeps_input_expansion:
  assumes arg: "arg_node n 0 = Inr a"
    and other: "a \<noteq> nid n"
    and inp: "expand_to_tensor_dim (st a) 4 = Inr arg_type"
    and run: "conv2d_inference_rule n m st = (st', r)"
  shows "st' a = arg_type
     \<and> (st a = Dyn \<longrightarrow> st' a = TensorType TupleArgs [DynD, DynD, DynD, DynD])
     \<and> (\<forall>e. r = Inl e \<longrightarrow> st' = st(a := arg_type) \<and> st' (nid n) = st (nid n))
     \<and> (\<forall>c t. nth_dim arg_type 1 = Inr c \<and> \<not> dim_consistent c (IntD (in_channels m))
             \<and> expand_to_tensor_dim (st (nid n)) 4 = Inr t \<longrightarrow>
           r = Inl (TypeError (CannotApply (Conv2d m) arg_type (st (nid n)) (nid n))))"
proof -
  have dyn: "st a = Dyn \<longrightarrow> arg_type = TensorType TupleArgs [DynD, DynD, DynD, DynD]"
    using inp by (auto simp: numeral_eq_Suc)
  have same: "(st(a := arg_type)) (nid n) = st (nid n)"
    using other by simp
  have at_a: "st' a = arg_type"
    using run arg inp other
    by (auto simp: conv2d_inference_rule_def Let_def split: sum.splits if_splits)
  have err: "\<forall>e. r = Inl e \<longrightarrow> st' = st(a := arg_type)"
    using run arg inp other
    by (auto simp: conv2d_inference_rule_def Let_def split: sum.splits if_splits)
  have chan: "\<forall>c t. nth_dim arg_type 1 = Inr c \<and> \<not> dim_consistent c (IntD (in_channels m))
             \<and> expand_to_tensor_dim (st (nid n)) 4 = Inr t \<longrightarrow>
           r = Inl (TypeError (CannotApply (Conv2d m) arg_type (st (nid n)) (nid n)))"
    using run arg inp other
    by (auto simp: conv2d_inference_rule_def Let_def split: sum.splits if_splits)
  show ?thesis
    using dyn same at_a err chan by auto
qed

theorem conv2d_error_keeps_input_expansion_witness:
  "arg_node conv_node 0 = Inr 0 \<and> 0 \<noteq> nid conv_node
   \<and> expand_to_tensor_dim (store_of (TensorType TupleArgs [IntD 1, IntD 4, IntD 32, IntD 32]) Dyn 0) 4
       = Inr (TensorType TupleArgs [IntD 1, IntD 4, IntD 32, IntD 32])
   \<and> conv2d_inference_rule conv_node conv_3_16
        (store_of (TensorType TupleArgs [IntD 1, IntD 4, IntD 32, IntD 32]) Dyn)
      = (store_of (TensorType TupleArgs [IntD 1, IntD 4, IntD 32, IntD 32]) Dyn,
         Inl (TypeError (CannotApply (Conv2d conv_3_16)
               (TensorType TupleArgs [IntD 1, IntD 4, IntD 32, IntD 32]) Dyn 1)))
   \<and> expand_to_tensor_dim (store_of Dyn (TensorType TupleArgs [IntD 1, IntD 2]) 0) 4
       = Inr (TensorType TupleArgs [DynD, DynD, DynD, DynD])
   \<and> conv2d_inference_rule conv_node conv_3_16 (store_of Dyn (TensorType TupleArgs [IntD 1, IntD 2]))
      = (store_of (TensorType TupleArgs [DynD, DynD, DynD, DynD]) (TensorType TupleArgs [IntD 1, IntD 2]),
         Inl (TypeError (RankMismatch (TensorType TupleArgs [IntD 1, IntD 2]) 2 4)))"
proof -
  let ?s1 = "store_of (TensorType TupleArgs [IntD 1, IntD 4, IntD 32, IntD 32]) Dyn"
  let ?s2 = "store_of Dyn (TensorType TupleArgs [IntD 1, IntD 2])"
  have a: "arg_node conv_node 0 = Inr 0" and o: "0 \<noteq> nid conv_node"
    by (simp_all add: arg_node_def conv_node_def)
  have e1: "expand_to_tensor_dim (?s1 0) 4 = Inr (TensorType TupleArgs [IntD 1, IntD 4, IntD 32, IntD 32])"
    and e2: "expand_to_tensor_dim (?s2 0) 4 = Inr (TensorType TupleArgs [DynD, DynD, DynD, DynD])"
    by (simp_all add: store_of_def numeral_eq_Suc)
  obtain s1' r1 where r1: "conv2d_inference_rule conv_node conv_3_16 ?s1 = (s1', r1)"
    by (cases "conv2d_inference_rule conv_node conv_3_16 ?s1")
  obtain s2' r2 where r2: "conv2d_inference_rule conv_node conv_3_16 ?s2 = (s2', r2)"
    by (cases "conv2d_inference_rule conv_node conv_3_16 ?s2")
  have k1: "r1 = Inl (TypeError (CannotApply (Conv2d conv_3_16)
               (TensorType TupleArgs [IntD 1, IntD 4, IntD 32, IntD 32]) Dyn 1))"
    using conv2d_error_keeps_input_expansion [OF a o e1 r1]
    by (simp add: store_of_def conv_node_def conv_3_16_def numeral_eq_Suc)
  have k2: "r2 = Inl (TypeError (RankMismatch (TensorType TupleArgs [IntD 1, IntD 2]) 2 4))"
    using r2 by (simp add: conv2d_inference_rule_def store_of_def conv_node_def arg_node_def numeral_eq_Suc)
  have m1: "s1' = ?s1"
    using conv2d_error_keeps_input_expansion [OF a o e1 r1] k1
    by (auto simp: store_of_def)
  have m2: "s2' = store_of (TensorType TupleArgs [DynD, DynD, DynD, DynD]) (TensorType TupleArgs [IntD 1, IntD 2])"
    using conv2d_error_keeps_input_expansion [OF a o e2 r2] k2
    by (auto simp: store_of_def)
  show ?thesis
    using a o e1 e2 r1 r2 k1 k2 m1 m2 by simp
qed

section \<open>Operators without a rule\<close>

text \<open>
  C8. A call-function node whose target has no rule in the registry, and likewise a
  call-module node whose resolved module class has none, makes the driver raise the
  unregistered-operator error whenever it visits the node, in every store; the only
  write before the raise is the initialisation of an unset type to \<^verbatim>\<open>Dyn\<close>. The
  whole-graph check of a graph that contains such a node never returns success, and it
  ends with exactly that error as soon as the nodes before it have checked: the node is
  not skipped and no node after it is visited.
\<close>

theorem unregistered_operator_aborts:
  assumes "unregistered rules tr n"
  shows "type_check_node rules tr n st = (init_type n st, Inl (unregistered_error tr n))
     \<and> (n \<in> set (graph_nodes tr) \<longrightarrow> snd (type_check rules tr st) \<noteq> Inr b)
     \<and> (graph_nodes tr = pre @ n # post \<and> type_check_nodes rules tr pre st = (st1, Inr True) \<longrightarrow>
          type_check rules tr st = (init_type n st1, Inl (unregistered_error tr n)))"
proof (intro conjI impI)
  show "type_check_node rules tr n st = (init_type n st, Inl (unregistered_error tr n))"
    by (rule type_check_node_unregistered [OF assms])
next
  assume "n \<in> set (graph_nodes tr)"
  then show "snd (type_check rules tr st) \<noteq> Inr b"
    unfolding type_check_def by (rule type_check_nodes_never_succeeds [OF assms])
next
  assume h: "graph_nodes tr = pre @ n # post \<and> type_check_nodes rules tr pre st = (st1, Inr True)"
  then show "type_check rules tr st = (init_type n st1, Inl (unregistered_error tr n))"
    by (simp add: type_check_def type_check_nodes_append type_check_node_unregistered [OF assms])
qed

theorem unregistered_operator_aborts_witness:
  "unregistered INFERENCE_RULES traced_fn fn_node
   \<and> unregistered INFERENCE_RULES traced_mod mod_node
   \<and> type_check INFERENCE_RULES traced_fn unset
       = (store_of Dyn Dyn,
          Inl (RuntimeError (NoRuleForTarget (Function (OtherCallable ''torch.flatten'')))))
   \<and> type_check INFERENCE_RULES traced_mod unset
       = (store_of Dyn Dyn, Inl (RuntimeError (NoRuleForClass (OtherCallable ''Dropout''))))"
proof -
  have u1: "unregistered INFERENCE_RULES traced_fn fn_node"
    by (simp add: unregistered_def fn_node_def INFERENCE_RULES_def)
  have u2: "unregistered INFERENCE_RULES traced_mod mod_node"
    by (simp add: unregistered_def mod_node_def traced_mod_def INFERENCE_RULES_def)
  have g1: "graph_nodes traced_fn = [node0] @ fn_node # [out_node]"
    and g2: "graph_nodes traced_mod = [node0] @ mod_node # [out_node]"
    by (simp_all add: traced_fn_def traced_mod_def)
  have p1: "type_check_nodes INFERENCE_RULES traced_fn [node0] unset = (unset(0 := Dyn), Inr True)"
    and p2: "type_check_nodes INFERENCE_RULES traced_mod [node0] unset = (unset(0 := Dyn), Inr True)"
    by (simp_all add: type_check_node_def node0_def unset_def)
  have e1: "unregistered_error traced_fn fn_node
            = RuntimeError (NoRuleForTarget (Function (OtherCallable ''torch.flatten'')))"
    by (simp add: unregistered_error_def fn_node_def)
  have e2: "unregistered_error traced_mod mod_node
            = RuntimeError (NoRuleForClass (OtherCallable ''Dropout''))"
    by (simp add: unregistered_error_def mod_node_def traced_mod_def)
  have i1: "init_type fn_node (unset(0 := Dyn)) = store_of Dyn Dyn"
    and i2: "init_type mod_node (unset(0 := Dyn)) = store_of Dyn Dyn"
    by (simp_all add: init_type_def fn_node_def mod_node_def store_of_def unset_def)
  show ?thesis
    using u1 u2 e1 e2 i1 i2
      unregistered_operator_aborts [OF u1, where pre = "[node0]" and post = "[out_node]"
        and st = unset and ?st1.0 = "unset(0 := Dyn)"]
      unregistered_operator_aborts [OF u2, where pre = "[node0]" and post = "[out_node]"
        and st = unset and ?st1.0 = "unset(0 := Dyn)"]
      g1 g2 p1 p2
    by simp
qed

section \<open>Which broadcast result the add rule keeps\<close>

text \<open>
  C2. The add rule broadcasts the types of its two operands and, when the results are
  consistent, is meant to keep the more precise of the two (its comment says so). The
  branches are the other way round: when the first broadcast result is more precise than
  the second, the node gets the second. For operand types \<open>(2, 3)\<close> and \<open>(Dyn, 3)\<close>, in
  either order, the node's type becomes \<open>(Dyn, 3)\<close>.
\<close>

theorem add_rule_takes_less_precise:
  "broadcast_types (TensorType TupleArgs [IntD 2, IntD 3]) (TensorType TupleArgs [DynD, IntD 3])
     = Inr (TensorType TupleArgs [IntD 2, IntD 3], TensorType TupleArgs [DynD, IntD 3])
   \<and> is_consistent (TensorType TupleArgs [IntD 2, IntD 3]) (TensorType TupleArgs [DynD, IntD 3])
   \<and> is_more_precise (TensorType TupleArgs [IntD 2, IntD 3]) (TensorType TupleArgs [DynD, IntD 3])
   \<and> \<not> is_more_precise (TensorType TupleArgs [DynD, IntD 3]) (TensorType TupleArgs [IntD 2, IntD 3])
   \<and> add_inference_rule add_node (store_of (TensorType TupleArgs [IntD 2, IntD 3]) (TensorType TupleArgs [DynD, IntD 3]))
     = ((store_of (TensorType TupleArgs [IntD 2, IntD 3]) (TensorType TupleArgs [DynD, IntD 3]))
          (2 := TensorType TupleArgs [DynD, IntD 3]),
        Inr (TensorType TupleArgs [DynD, IntD 3]))
   \<and> add_inference_rule add_node (store_of (TensorType TupleArgs [DynD, IntD 3]) (TensorType TupleArgs [IntD 2, IntD 3]))
     = ((store_of (TensorType TupleArgs [DynD, IntD 3]) (TensorType TupleArgs [IntD 2, IntD 3]))
          (2 := TensorType TupleArgs [DynD, IntD 3]),
        Inr (TensorType TupleArgs [DynD, IntD 3]))"
proof -
  have b1: "broadcast_types (TensorType TupleArgs [IntD 2, IntD 3]) (TensorType TupleArgs [DynD, IntD 3])
     = Inr (TensorType TupleArgs [IntD 2, IntD 3], TensorType TupleArgs [DynD, IntD 3])"
    by (simp add: broadcast_types_def)
  have b2: "broadcast_types (TensorType TupleArgs [DynD, IntD 3]) (TensorType TupleArgs [IntD 2, IntD 3])
     = Inr (TensorType TupleArgs [DynD, IntD 3], TensorType TupleArgs [IntD 2, IntD 3])"
    by (simp add: broadcast_types_def)
  have a0: "arg_node add_node 0 = Inr 0" and a1: "arg_node add_node 1 = Inr 1"
    by (simp_all add: arg_node_def add_node_def)
  have r1: "add_inference_rule add_node (store_of (TensorType TupleArgs [IntD 2, IntD 3]) (TensorType TupleArgs [DynD, IntD 3]))
     = ((store_of (TensorType TupleArgs [IntD 2, IntD 3]) (TensorType TupleArgs [DynD, IntD 3]))
          (2 := TensorType TupleArgs [DynD, IntD 3]),
        Inr (TensorType TupleArgs [DynD, IntD 3]))"
    using b1 a0 a1 by (simp add: add_inference_rule_def store_of_def add_node_def Let_def)
  have r2: "add_inference_rule add_node (store_of (TensorType TupleArgs [DynD, IntD 3]) (TensorType TupleArgs [IntD 2, IntD 3]))
     = ((store_of (TensorType TupleArgs [DynD, IntD 3]) (TensorType TupleArgs [IntD 2, IntD 3]))
          (2 := TensorType TupleArgs [DynD, IntD 3]),
        Inr (TensorType TupleArgs [DynD, IntD 3]))"
    using b2 a0 a1 by (simp add: add_inference_rule_def store_of_def add_node_def Let_def)
  show ?thesis
    using b1 r1 r2 by simp
qed

section \<open>Max-pooling of two concrete types\<close>

text \<open>
  C4. For a 2D max-pool node whose input type and own type both are tensor-shape types
  the rule applies the pooling formula to both and then keeps the pooled node type
  unless the pooled input type is more precise. It never compares the two for
  consistency: with input type \<open>(1, 3, 8, 8)\<close>, node type \<open>(1, 3, 16, 16)\<close> and a 2x2 pool
  of stride 2 the pooled types \<open>(1, 3, 4, 4)\<close> and \<open>(1, 3, 8, 8)\<close> are inconsistent, and
  the rule returns \<open>(1, 3, 8, 8)\<close> without raising.
\<close>

theorem maxpool2d_accepts_inconsistent:
  "maxpool2d_check (TensorType TupleArgs [IntD 1, IntD 3, IntD 8, IntD 8]) pool_2x2
     = Inr (TensorType TupleArgs [IntD 1, IntD 3, IntD 4, IntD 4])
   \<and> maxpool2d_check (TensorType TupleArgs [IntD 1, IntD 3, IntD 16, IntD 16]) pool_2x2
     = Inr (TensorType TupleArgs [IntD 1, IntD 3, IntD 8, IntD 8])
   \<and> \<not> is_consistent (TensorType TupleArgs [IntD 1, IntD 3, IntD 4, IntD 4])
                       (TensorType TupleArgs [IntD 1, IntD 3, IntD 8, IntD 8])
   \<and> maxpool2d_inference_rule pool_node pool_2x2
        (store_of (TensorType TupleArgs [IntD 1, IntD 3, IntD 8, IntD 8])
                  (TensorType TupleArgs [IntD 1, IntD 3, IntD 16, IntD 16]))
     = (store_of (TensorType TupleArgs [IntD 1, IntD 3, IntD 8, IntD 8])
                 (TensorType TupleArgs [IntD 1, IntD 3, IntD 8, IntD 8]),
        Inr (TensorType TupleArgs [IntD 1, IntD 3, IntD 8, IntD 8]))"
proof -
  have c1: "maxpool2d_check (TensorType TupleArgs [IntD 1, IntD 3, IntD 8, IntD 8]) pool_2x2
     = Inr (TensorType TupleArgs [IntD 1, IntD 3, IntD 4, IntD 4])"
    by (simp add: pool_2x2_def Let_def)
  have c2: "maxpool2d_check (TensorType TupleArgs [IntD 1, IntD 3, IntD 16, IntD 16]) pool_2x2
     = Inr (TensorType TupleArgs [IntD 1, IntD 3, IntD 8, IntD 8])"
    by (simp add: pool_2x2_def Let_def)
  have a: "arg_node pool_node 0 = Inr 0"
    by (simp add: arg_node_def pool_node_def)
  have r: "maxpool2d_inference_rule pool_node pool_2x2
        (store_of (TensorType TupleArgs [IntD 1, IntD 3, IntD 8, IntD 8])
                  (TensorType TupleArgs [IntD 1, IntD 3, IntD 16, IntD 16]))
     = (store_of (TensorType TupleArgs [IntD 1, IntD 3, IntD 8, IntD 8])
                 (TensorType TupleArgs [IntD 1, IntD 3, IntD 8, IntD 8]),
        Inr (TensorType TupleArgs [IntD 1, IntD 3, IntD 8, IntD 8]))"
    using a c1 c2 by (simp add: maxpool2d_inference_rule_def store_of_def pool_node_def)
  show ?thesis
    using c1 c2 r by simp
qed

section \<open>The output size of adaptive average pooling\<close>

text \<open>
  C6. \<^verbatim>\<open>adaptiveavgpool2d_check\<close> overrides the last two dimensions of a type of rank
  3 or 4 with the module's output size. A scalar size is used for both, and a missing
  height takes the width. A missing width does not take the height, because the source
  compares where it means to assign: with output size \<open>(5, None)\<close> the last dimension
  of the result is \<^verbatim>\<open>None\<close>, not 5.
\<close>

theorem adaptiveavgpool2d_missing_width_stays_none:
  "normalize_output_size (OutPair (Some 5) None) = (IntD 5, NoneD)
   \<and> normalize_output_size (OutPair None (Some 5)) = (IntD 5, IntD 5)
   \<and> adaptiveavgpool2d_check (TensorType TupleArgs [IntD 1, IntD 3, IntD 8, IntD 8]) (OutPair (Some 5) None)
     = Inr (TensorType TupleArgs [IntD 1, IntD 3, IntD 5, NoneD])
   \<and> adaptiveavgpool2d_inference_rule pool_node (OutPair (Some 5) None)
        (store_of (TensorType TupleArgs [IntD 1, IntD 3, IntD 8, IntD 8]) Dyn)
     = (store_of (TensorType TupleArgs [IntD 1, IntD 3, IntD 8, IntD 8])
                 (TensorType TupleArgs [IntD 1, IntD 3, IntD 5, NoneD]),
        Inr (TensorType TupleArgs [IntD 1, IntD 3, IntD 5, NoneD]))"
proof -
  have c: "adaptiveavgpool2d_check (TensorType TupleArgs [IntD 1, IntD 3, IntD 8, IntD 8]) (OutPair (Some 5) None)
     = Inr (TensorType TupleArgs [IntD 1, IntD 3, IntD 5, NoneD])"
    by simp
  have a: "arg_node pool_node 0 = Inr 0"
    by (simp add: arg_node_def pool_node_def)
  have r: "adaptiveavgpool2d_inference_rule pool_node (OutPair (Some 5) None)
        (store_of (TensorType TupleArgs [IntD 1, IntD 3, IntD 8, IntD 8]) Dyn)
     = (store_of (TensorType TupleArgs [IntD 1, IntD 3, IntD 8, IntD 8])
                 (TensorType TupleArgs [IntD 1, IntD 3, IntD 5, NoneD]),
        Inr (TensorType TupleArgs [IntD 1, IntD 3, IntD 5, NoneD]))"
    using a c by (simp add: adaptiveavgpool2d_inference_rule_def store_of_def pool_node_def)
  show ?thesis
    using c r by simp
qed

section \<open>Reshape\<close>

text \<open>
  C5. Reshaping \<open>(2, 3, 4)\<close> to \<open>[6, 4]\<close> succeeds with the target shape, and reshaping
  \<open>(2, 3, 4)\<close> to \<open>[5, 5]\<close> raises the reshape error. With an unknown dimension on
  either side the rule tests divisibility with Python's \<^verbatim>\<open>%\<close>, the target's product
  as the first divisor: for the source \<open>(Dyn, 3)\<close> and the target \<open>[0, 2]\<close> the known
  product 3 divides the target's product 0, yet the rule raises a division-by-zero
  error instead of succeeding.
\<close>

theorem reshape_zero_target_raises_division_error:
  "reshape_inference_rule (reshape_node [0, 2]) (store_of (TensorType TupleArgs [DynD, IntD 3]) Dyn)
     = (store_of (TensorType TupleArgs [DynD, IntD 3]) Dyn, Inl ZeroDivisionError)
   \<and> reshape_inference_rule (reshape_node [6, 4]) (store_of (TensorType TupleArgs [IntD 2, IntD 3, IntD 4]) Dyn)
     = (store_of (TensorType TupleArgs [IntD 2, IntD 3, IntD 4]) (TensorType ListArgs [IntD 6, IntD 4]),
        Inr (TensorType ListArgs [IntD 6, IntD 4]))
   \<and> reshape_inference_rule (reshape_node [5, 5]) (store_of (TensorType TupleArgs [IntD 2, IntD 3, IntD 4]) Dyn)
     = (store_of (TensorType TupleArgs [IntD 2, IntD 3, IntD 4]) Dyn,
        Inl (TypeError (CannotReshape 1 (TensorType TupleArgs [IntD 2, IntD 3, IntD 4])
                                        (TensorType ListArgs [IntD 5, IntD 5]))))"
proof -
  have a: "\<And>s. arg_node (reshape_node s) 0 = Inr 0" and l: "\<And>s. arg_list (reshape_node s) (Suc 0) = Inr s"
    by (simp_all add: arg_node_def arg_list_def reshape_node_def)
  have n: "\<And>s. nid (reshape_node s) = 1"
    by (simp add: reshape_node_def)
  show ?thesis
    by (simp add: reshape_inference_rule_def a l n store_of_def py_mod_def Let_def)
qed

section \<open>The reshape rule in general\<close>

text \<open>
  X1. For a reshape node whose source is a tensor-shape type of rank at least 1 with
  integer or dynamic dimensions and whose target list is not empty: if the source has no
  dynamic dimension and the target no wildcard, the rule succeeds with the target type
  exactly when the two products are equal and raises the reshape error otherwise; if
  the source has a dynamic dimension or the target a wildcard, and the product of the
  target's known entries is not zero, the rule succeeds exactly when one of the two
  products of known dimensions divides the other and raises the reshape error
  otherwise; with a target product of zero it raises a division-by-zero error.
\<close>

theorem reshape_rule_characterisation:
  assumes arg: "arg_node n 0 = Inr a" and lst: "arg_list n 1 = Inr t2"
    and src: "st a = TensorType k xs" and rank: "xs \<noteq> []" and dims: "NoneD \<notin> set xs"
    and tgt: "t2 \<noteq> []"
  shows "(DynD \<notin> set xs \<and> - 1 \<notin> set t2 \<longrightarrow>
            reshape_inference_rule n st =
              (if known_product xs = prod_list t2
               then (st(nid n := target_type t2), Inr (target_type t2))
               else (st, Inl (TypeError (CannotReshape (nid n) (TensorType k xs) (target_type t2))))))
     \<and> ((DynD \<in> set xs \<or> - 1 \<in> set t2) \<and> target_known_product t2 \<noteq> 0 \<longrightarrow>
            reshape_inference_rule n st =
              (if known_product xs dvd target_known_product t2
                  \<or> target_known_product t2 dvd known_product xs
               then (st(nid n := target_type t2), Inr (target_type t2))
               else (st, Inl (TypeError (CannotReshape (nid n) (TensorType k xs) (target_type t2))))))
     \<and> ((DynD \<in> set xs \<or> - 1 \<in> set t2) \<and> target_known_product t2 = 0 \<longrightarrow>
            reshape_inference_rule n st = (st, Inl ZeroDivisionError))"
proof (intro conjI impI)
  assume h: "DynD \<notin> set xs \<and> - 1 \<notin> set t2"
  then have p1: "reduce_mul xs = Inr (IntD (known_product xs))"
    using reduce_mul_concrete [OF rank dims] by simp
  show "reshape_inference_rule n st =
              (if known_product xs = prod_list t2
               then (st(nid n := target_type t2), Inr (target_type t2))
               else (st, Inl (TypeError (CannotReshape (nid n) (TensorType k xs) (target_type t2)))))"
    using arg lst src h p1 reduce_mul_int_prod [OF tgt]
    by (simp add: reshape_inference_rule_def Let_def target_type_def)
next
  assume h: "(DynD \<in> set xs \<or> - 1 \<in> set t2) \<and> target_known_product t2 \<noteq> 0"
  then have nz: "prod_list t2 \<noteq> 0"
    using abs_prod_target [of t2] by auto
  have d: "divides_either (IntD (known_product xs)) (prod_list t2)
           = Inr (known_product xs dvd target_known_product t2
                  \<or> target_known_product t2 dvd known_product xs)"
    using divides_either_dvd [OF nz, of "known_product xs"]
      prod_dvd_iff [of t2 "known_product xs"] dvd_prod_iff [of "known_product xs" t2]
    by auto
  show "reshape_inference_rule n st =
              (if known_product xs dvd target_known_product t2
                  \<or> target_known_product t2 dvd known_product xs
               then (st(nid n := target_type t2), Inr (target_type t2))
               else (st, Inl (TypeError (CannotReshape (nid n) (TensorType k xs) (target_type t2)))))"
    using arg lst src h d reduce_mul_known [OF rank dims] reduce_mul_int_prod [OF tgt]
    by (simp add: reshape_inference_rule_def Let_def target_type_def del: divides_either.simps)
next
  assume h: "(DynD \<in> set xs \<or> - 1 \<in> set t2) \<and> target_known_product t2 = 0"
  then have z: "prod_list t2 = 0"
    using abs_prod_target [of t2] by auto
  show "reshape_inference_rule n st = (st, Inl ZeroDivisionError)"
    using arg lst src h z reduce_mul_known [OF rank dims] reduce_mul_int_prod [OF tgt]
    by (simp add: reshape_inference_rule_def Let_def py_mod_def)
qed

theorem reshape_rule_characterisation_witness:
  "arg_node (reshape_node [6, 4]) 0 = Inr 0 \<and> arg_list (reshape_node [6, 4]) 1 = Inr [6, 4]
   \<and> reshape_inference_rule (reshape_node [6, 4]) (store_of (TensorType TupleArgs [IntD 2, IntD 3, IntD 4]) Dyn)
      = (store_of (TensorType TupleArgs [IntD 2, IntD 3, IntD 4]) (TensorType ListArgs [IntD 6, IntD 4]),
         Inr (TensorType ListArgs [IntD 6, IntD 4]))
   \<and> reshape_inference_rule (reshape_node [- 1, 4]) (store_of (TensorType TupleArgs [IntD 2, DynD, IntD 4]) Dyn)
      = (store_of (TensorType TupleArgs [IntD 2, DynD, IntD 4]) (TensorType ListArgs [DynD, IntD 4]),
         Inr (TensorType ListArgs [DynD, IntD 4]))
   \<and> reshape_inference_rule (reshape_node [- 1, 5]) (store_of (TensorType TupleArgs [IntD 2, IntD 3, IntD 4]) Dyn)
      = (store_of (TensorType TupleArgs [IntD 2, IntD 3, IntD 4]) Dyn,
         Inl (TypeError (CannotReshape 1 (TensorType TupleArgs [IntD 2, IntD 3, IntD 4]) (TensorType ListArgs [DynD, IntD 5]))))
   \<and> reshape_inference_rule (reshape_node [0, 2]) (store_of (TensorType TupleArgs [DynD, IntD 3]) Dyn)
      = (store_of (TensorType TupleArgs [DynD, IntD 3]) Dyn, Inl ZeroDivisionError)"
proof -
  have a: "\<And>s. arg_node (reshape_node s) 0 = Inr 0" and l: "\<And>s. arg_list (reshape_node s) 1 = Inr s"
    and n: "\<And>s. nid (reshape_node s) = 1"
    by (simp_all add: arg_node_def arg_list_def reshape_node_def)
  have s: "\<And>t. store_of t Dyn 0 = t"
    by (simp add: store_of_def)
  have u: "\<And>t t'. (store_of t Dyn)(Suc 0 := t') = store_of t t'"
    by (simp add: store_of_def)
  have w1: "reshape_inference_rule (reshape_node [6, 4]) (store_of (TensorType TupleArgs [IntD 2, IntD 3, IntD 4]) Dyn)
      = (store_of (TensorType TupleArgs [IntD 2, IntD 3, IntD 4]) (TensorType ListArgs [IntD 6, IntD 4]),
         Inr (TensorType ListArgs [IntD 6, IntD 4]))"
    using reshape_rule_characterisation [where n = "reshape_node [6, 4]" and a = 0 and ?t2.0 = "[6, 4]"
        and st = "store_of (TensorType TupleArgs [IntD 2, IntD 3, IntD 4]) Dyn" and xs = "[IntD 2, IntD 3, IntD 4]"]
      a [of "[6, 4]"] l [of "[6, 4]"] s [of "TensorType TupleArgs [IntD 2, IntD 3, IntD 4]"]
    by (simp add: n u known_product_def target_type_def)
  have w2: "reshape_inference_rule (reshape_node [- 1, 4]) (store_of (TensorType TupleArgs [IntD 2, DynD, IntD 4]) Dyn)
      = (store_of (TensorType TupleArgs [IntD 2, DynD, IntD 4]) (TensorType ListArgs [DynD, IntD 4]),
         Inr (TensorType ListArgs [DynD, IntD 4]))"
    using reshape_rule_characterisation [where n = "reshape_node [- 1, 4]" and a = 0 and ?t2.0 = "[- 1, 4]"
        and st = "store_of (TensorType TupleArgs [IntD 2, DynD, IntD 4]) Dyn" and xs = "[IntD 2, DynD, IntD 4]"]
      a [of "[- 1, 4]"] l [of "[- 1, 4]"] s [of "TensorType TupleArgs [IntD 2, DynD, IntD 4]"]
    by (simp add: n u known_product_def target_known_product_def target_type_def)
  have w3: "reshape_inference_rule (reshape_node [- 1, 5]) (store_of (TensorType TupleArgs [IntD 2, IntD 3, IntD 4]) Dyn)
      = (store_of (TensorType TupleArgs [IntD 2, IntD 3, IntD 4]) Dyn,
         Inl (TypeError (CannotReshape 1 (TensorType TupleArgs [IntD 2, IntD 3, IntD 4]) (TensorType ListArgs [DynD, IntD 5]))))"
    using reshape_rule_characterisation [where n = "reshape_node [- 1, 5]" and a = 0 and ?t2.0 = "[- 1, 5]"
        and st = "store_of (TensorType TupleArgs [IntD 2, IntD 3, IntD 4]) Dyn" and xs = "[IntD 2, IntD 3, IntD 4]"]
      a [of "[- 1, 5]"] l [of "[- 1, 5]"] s [of "TensorType TupleArgs [IntD 2, IntD 3, IntD 4]"]
    by (simp add: n u known_product_def target_known_product_def target_type_def)
  have w4: "reshape_inference_rule (reshape_node [0, 2]) (store_of (TensorType TupleArgs [DynD, IntD 3]) Dyn)
      = (store_of (TensorType TupleArgs [DynD, IntD 3]) Dyn, Inl ZeroDivisionError)"
    using reshape_rule_characterisation [where n = "reshape_node [0, 2]" and a = 0 and ?t2.0 = "[0, 2]"
        and st = "store_of (TensorType TupleArgs [DynD, IntD 3]) Dyn" and xs = "[DynD, IntD 3]"]
      a [of "[0, 2]"] l [of "[0, 2]"] s [of "TensorType TupleArgs [DynD, IntD 3]"]
    by (simp add: n u known_product_def target_known_product_def target_type_def)
  show ?thesis
    using a l w1 w2 w3 w4 by simp
qed

section \<open>The output size of adaptive average pooling in general\<close>

text \<open>
  X2. For a tensor-shape type of rank 3 or 4, \<^verbatim>\<open>adaptiveavgpool2d_check\<close> keeps the
  leading dimensions and replaces the last two: by \<open>(k, k)\<close> for a scalar output size
  \<open>k\<close>, by \<open>(h, w)\<close> for a pair of two integers, by \<open>(w, w)\<close> for a pair whose height
  is missing, and by \<open>(h, None)\<close> for a pair whose width is missing.
\<close>

theorem adaptiveavgpool2d_check_output_size:
  assumes "length xs = 3 \<or> length xs = 4"
  shows "adaptiveavgpool2d_check (TensorType kd xs) (OutInt k)
           = Inr (TensorType TupleArgs (take (length xs - 2) xs @ [IntD k, IntD k]))
     \<and> adaptiveavgpool2d_check (TensorType kd xs) (OutPair (Some h) (Some w))
           = Inr (TensorType TupleArgs (take (length xs - 2) xs @ [IntD h, IntD w]))
     \<and> adaptiveavgpool2d_check (TensorType kd xs) (OutPair None (Some w))
           = Inr (TensorType TupleArgs (take (length xs - 2) xs @ [IntD w, IntD w]))
     \<and> adaptiveavgpool2d_check (TensorType kd xs) (OutPair (Some h) None)
           = Inr (TensorType TupleArgs (take (length xs - 2) xs @ [IntD h, NoneD]))"
  using rank_3_or_4 [OF assms] by auto

theorem adaptiveavgpool2d_check_output_size_witness:
  "(length [IntD 1, IntD 3, IntD 8, IntD 8] = 3 \<or> length [IntD 1, IntD 3, IntD 8, IntD 8] = 4)
   \<and> adaptiveavgpool2d_check (TensorType TupleArgs [IntD 1, IntD 3, IntD 8, IntD 8]) (OutInt 7)
       = Inr (TensorType TupleArgs [IntD 1, IntD 3, IntD 7, IntD 7])
   \<and> adaptiveavgpool2d_check (TensorType TupleArgs [IntD 1, IntD 3, IntD 8, IntD 8]) (OutPair None (Some 5))
       = Inr (TensorType TupleArgs [IntD 1, IntD 3, IntD 5, IntD 5])"
  using adaptiveavgpool2d_check_output_size [of "[IntD 1, IntD 3, IntD 8, IntD 8]" TupleArgs 7 0 5]
  by simp

section \<open>The add rule on two tensor-shape types in general\<close>

text \<open>
  X3. For an add node whose two operands are nodes with tensor-shape types that
  broadcast to a consistent pair, the rule writes the two broadcast results to the
  operand nodes and sets the node's type to the second result when the first is more
  precise than the second, and to the first result otherwise.
\<close>

theorem add_rule_result:
  assumes a0: "arg_node n 0 = Inr a0" and a1: "arg_node n 1 = Inr a1"
    and t0: "is_TensorType (st a0)" and t1: "is_TensorType (st a1)"
    and bc: "broadcast_types (st a0) (st a1) = Inr (new_t1, new_t2)"
    and cons: "is_consistent new_t1 new_t2"
  shows "add_inference_rule n st =
           (st(a0 := new_t1, a1 := new_t2,
               nid n := (if is_more_precise new_t1 new_t2 then new_t2 else new_t1)),
            Inr (if is_more_precise new_t1 new_t2 then new_t2 else new_t1))"
  using a0 a1 bc cons is_TensorType_not_others [OF t0] is_TensorType_not_others [OF t1]
  by (simp add: add_inference_rule_def Let_def)

theorem add_rule_result_witness:
  "arg_node add_node 0 = Inr 0 \<and> arg_node add_node 1 = Inr 1
   \<and> broadcast_types (TensorType TupleArgs [IntD 3, IntD 4]) (TensorType TupleArgs [IntD 4])
      = Inr (TensorType TupleArgs [IntD 3, IntD 4], TensorType TupleArgs [IntD 3, IntD 4])
   \<and> add_inference_rule add_node (store_of (TensorType TupleArgs [IntD 3, IntD 4]) (TensorType TupleArgs [IntD 4]))
      = ((store_of (TensorType TupleArgs [IntD 3, IntD 4]) (TensorType TupleArgs [IntD 3, IntD 4]))
           (2 := TensorType TupleArgs [IntD 3, IntD 4]),
         Inr (TensorType TupleArgs [IntD 3, IntD 4]))"
proof -
  let ?T = "TensorType TupleArgs [IntD 3, IntD 4]"
  let ?st = "store_of ?T (TensorType TupleArgs [IntD 4])"
  have a0: "arg_node add_node 0 = Inr 0" and a1: "arg_node add_node 1 = Inr 1"
    by (simp_all add: arg_node_def add_node_def)
  have t0: "is_TensorType (?st 0)" and t1: "is_TensorType (?st 1)"
    by (simp_all add: store_of_def)
  have bc0: "broadcast_types ?T (TensorType TupleArgs [IntD 4]) = Inr (?T, ?T)"
    by (simp add: broadcast_types_def Let_def)
  have bc: "broadcast_types (?st 0) (?st 1) = Inr (?T, ?T)"
    using bc0 by (simp add: store_of_def)
  have cons: "is_consistent ?T ?T"
    by simp
  have r: "add_inference_rule add_node ?st = (?st(0 := ?T, 1 := ?T, nid add_node := ?T), Inr ?T)"
    using add_rule_result [OF a0 a1 t0 t1 bc cons] by simp
  have e: "?st(0 := ?T, 1 := ?T, nid add_node := ?T) = (store_of ?T ?T)(2 := ?T)"
    by (simp add: store_of_def add_node_def)
  show ?thesis
    using a0 a1 bc0 r e by simp
qed

section \<open>Max-pooling of two tensor-shape types in general\<close>

text \<open>
  X4. For a 2D max-pool node whose input type and own type both are tensor-shape types
  that \<^verbatim>\<open>maxpool2d_check\<close> accepts, the rule never raises: it sets the node's type to
  the pooled input type when that is more precise than the pooled node type, and to the
  pooled node type otherwise, whether or not the two are consistent.
\<close>

theorem maxpool2d_two_tensor_types:
  assumes a: "arg_node n 0 = Inr a"
    and ta: "is_TensorType (st a)" and tn: "is_TensorType (st (nid n))"
    and ca: "maxpool2d_check (st a) m = Inr new_arg"
    and cn: "maxpool2d_check (st (nid n)) m = Inr new_node_type"
  shows "maxpool2d_inference_rule n m st =
           (st(nid n := (if is_more_precise new_arg new_node_type then new_arg else new_node_type)),
            Inr (if is_more_precise new_arg new_node_type then new_arg else new_node_type))"
  using a ca cn ta tn is_TensorType_not_others [OF ta] is_TensorType_not_others [OF tn]
  by (simp add: maxpool2d_inference_rule_def Let_def)

theorem maxpool2d_two_tensor_types_witness:
  "arg_node pool_node 0 = Inr 0
   \<and> maxpool2d_check (TensorType TupleArgs [IntD 1, IntD 3, IntD 8, IntD 8]) pool_2x2
      = Inr (TensorType TupleArgs [IntD 1, IntD 3, IntD 4, IntD 4])
   \<and> maxpool2d_check (TensorType TupleArgs [DynD, IntD 3, DynD, IntD 8]) pool_2x2
      = Inr (TensorType TupleArgs [DynD, IntD 3, DynD, IntD 4])
   \<and> maxpool2d_inference_rule pool_node pool_2x2
        (store_of (TensorType TupleArgs [IntD 1, IntD 3, IntD 8, IntD 8]) (TensorType TupleArgs [DynD, IntD 3, DynD, IntD 8]))
      = (store_of (TensorType TupleArgs [IntD 1, IntD 3, IntD 8, IntD 8]) (TensorType TupleArgs [IntD 1, IntD 3, IntD 4, IntD 4]),
         Inr (TensorType TupleArgs [IntD 1, IntD 3, IntD 4, IntD 4]))"
proof -
  let ?A = "TensorType TupleArgs [IntD 1, IntD 3, IntD 8, IntD 8]"
  let ?N = "TensorType TupleArgs [DynD, IntD 3, DynD, IntD 8]"
  let ?A' = "TensorType TupleArgs [IntD 1, IntD 3, IntD 4, IntD 4]"
  let ?N' = "TensorType TupleArgs [DynD, IntD 3, DynD, IntD 4]"
  let ?st = "store_of ?A ?N"
  have a: "arg_node pool_node 0 = Inr 0"
    by (simp add: arg_node_def pool_node_def)
  have s0: "?st 0 = ?A" and s1: "?st (nid pool_node) = ?N"
    by (simp_all add: store_of_def pool_node_def)
  have ta: "is_TensorType (?st 0)" and tn: "is_TensorType (?st (nid pool_node))"
    by (simp_all add: s0 s1)
  have ca0: "maxpool2d_check ?A pool_2x2 = Inr ?A'" and cn0: "maxpool2d_check ?N pool_2x2 = Inr ?N'"
    by (simp_all add: pool_2x2_def Let_def)
  have ca: "maxpool2d_check (?st 0) pool_2x2 = Inr ?A'"
    and cn: "maxpool2d_check (?st (nid pool_node)) pool_2x2 = Inr ?N'"
    using ca0 cn0 by (simp_all only: s0 s1)
  have mp: "is_more_precise ?A' ?N'"
    by simp
  have r: "maxpool2d_inference_rule pool_node pool_2x2 ?st = (?st(nid pool_node := ?A'), Inr ?A')"
    using maxpool2d_two_tensor_types [OF a ta tn ca cn] mp by simp
  have e: "?st(nid pool_node := ?A') = store_of ?A ?A'"
    by (simp add: store_of_def pool_node_def)
  show ?thesis
    using a ca0 cn0 r e by simp
qed

section \<open>Broadcasting two types of the same shape in general\<close>

text \<open>
  X5. For two tensor-shape types with the same dimensions, of rank at least 1:
  \<^verbatim>\<open>broadcast_types\<close> returns the shape twice, as tuple-backed types, unless the
  \<^verbatim>\<open>__args__\<close> of both are lists; then it raises the in-place error.
\<close>

theorem broadcast_types_same_type:
  "xs \<noteq> [] \<Longrightarrow>
   broadcast_types (TensorType k1 xs) (TensorType k2 xs) =
     (if k1 = ListArgs \<and> k2 = ListArgs then Inl (TypeError InPlaceShape)
      else Inr (TensorType TupleArgs xs, TensorType TupleArgs xs))"
proof -
  assume ne: "xs \<noteq> []"
  have "broadcast_loop 0 (zip xs xs) xs xs = (xs, xs)"
    by (rule broadcast_loop_same) simp_all
  then show ?thesis
    using ne by (cases k1; cases k2) (simp_all add: broadcast_types_def)
qed

theorem broadcast_types_same_type_witness:
  "[IntD 1, DynD, IntD 3] \<noteq> []
   \<and> broadcast_types (TensorType TupleArgs [IntD 1, DynD, IntD 3]) (TensorType TupleArgs [IntD 1, DynD, IntD 3])
     = Inr (TensorType TupleArgs [IntD 1, DynD, IntD 3], TensorType TupleArgs [IntD 1, DynD, IntD 3])
   \<and> broadcast_types (TensorType ListArgs [IntD 1, DynD, IntD 3]) (TensorType TupleArgs [IntD 1, DynD, IntD 3])
     = Inr (TensorType TupleArgs [IntD 1, DynD, IntD 3], TensorType TupleArgs [IntD 1, DynD, IntD 3])
   \<and> broadcast_types (TensorType ListArgs [IntD 1, DynD, IntD 3]) (TensorType ListArgs [IntD 1, DynD, IntD 3])
     = Inl (TypeError InPlaceShape)"
  using broadcast_types_same_type [of "[IntD 1, DynD, IntD 3]" TupleArgs TupleArgs]
    broadcast_types_same_type [of "[IntD 1, DynD, IntD 3]" ListArgs TupleArgs]
    broadcast_types_same_type [of "[IntD 1, DynD, IntD 3]" ListArgs ListArgs]
  by simp

end
